theory Spec2Isabelle
  imports Complex_Main "HOL-Library.Char_ord" "HOL-Library.List_Lexorder"
    "HOL-Library.Product_Lexorder" "HOL-Library.Option_ord" "HOL-Library.Multiset"
begin

section \<open>Errors and result values\<close>

text \<open>
  The Python exceptions that the modelled functions of \<^verbatim>\<open>aecg/core.py\<close> and
  \<^verbatim>\<open>aecg/indexing.py\<close> can raise. A function that may raise returns
  \<open>py_error + 'a\<close>, with \<open>Inl\<close> for the exception. Python floats (and numpy
  float64 values) are idealised as reals; a NaN cell of a data frame is \<open>None\<close>.
  A Python string is a \<open>string\<close> whose characters stand for code points below 256.
\<close>

datatype py_error =
    UnknownUnitsError
  | AttributeError
  | ValueError
  | IndexError
  | KeyError

definition ebind :: "py_error + 'a \<Rightarrow> ('a \<Rightarrow> py_error + 'b) \<Rightarrow> py_error + 'b" where
  "ebind m f = (case m of Inl e \<Rightarrow> Inl e | Inr x \<Rightarrow> f x)"

section \<open>Leads and the millivolt conversion (core.py)\<close>

text \<open>
  \<^verbatim>\<open>class AecgLead\<close>: the attributes set by \<^verbatim>\<open>__init__\<close> that
  \<^verbatim>\<open>lead_values_mv\<close> reads. (\<^verbatim>\<open>LEADTIME\<close> is not read by it.)
\<close>

record AecgLead =
  leadname :: string
  origin :: real
  origin_unit :: string
  scale :: real
  scale_unit :: string
  digits :: "real list"

text \<open>
  \<^verbatim>\<open>lead_values_mv\<close> reads \<^verbatim>\<open>aecglead.oirigin_unit\<close> in the second, third
  and fourth test of the origin cascade. \<^verbatim>\<open>AecgLead.__init__\<close> sets
  \<^verbatim>\<open>origin_unit\<close> only, and no code of the package assigns an attribute of the
  name \<^verbatim>\<open>oirigin_unit\<close>, so the read raises \<^verbatim>\<open>AttributeError\<close>.
\<close>

definition oirigin_unit :: "AecgLead \<Rightarrow> py_error + string" where
  "oirigin_unit aecglead = Inl AttributeError"

definition lead_values_mv :: "AecgLead \<Rightarrow> py_error + real list" where
  "lead_values_mv aecglead =
     ebind
       (if origin_unit aecglead = ''uV'' then Inr (origin aecglead * (1 / 1000))
        else ebind (oirigin_unit aecglead) (\<lambda>u1.
          if u1 = ''V'' then Inr (origin aecglead * 1000)
          else ebind (oirigin_unit aecglead) (\<lambda>u2.
            if u2 = ''mV'' then Inr (origin aecglead)
            else ebind (oirigin_unit aecglead) (\<lambda>u3.
              if u3 = ''nV'' then Inr (origin aecglead * (1 / 1000000))
              else Inl UnknownUnitsError))))
       (\<lambda>origin_mv.
     ebind
       (if scale_unit aecglead = ''uV'' then Inr (scale aecglead * (1 / 1000))
        else if scale_unit aecglead = ''V'' then Inr (scale aecglead * 1000)
        else if scale_unit aecglead = ''mV'' then Inr (scale aecglead)
        else if scale_unit aecglead = ''nV'' then Inr (scale aecglead * (1 / 1000000))
        else Inl UnknownUnitsError)
       (\<lambda>scale_mv.
     Inr (map (\<lambda>d. d * scale_mv + origin_mv) (digits aecglead))))"

section \<open>Annotations and their clinical labels (core.py, Aecg.anns_to_ms)\<close>

text \<open>
  One row of the annotation frame \<^verbatim>\<open>ecganns\<close>, with the keys of the dictionary
  built in \<^verbatim>\<open>aecg/io.py\<close>. \<^verbatim>\<open>beatnum\<close> is an integer or the empty string
  (\<open>None\<close>). The key \<^verbatim>\<open>value\<close> is the field \<open>val\<close>.
\<close>

record annotation =
  anngrpid :: int
  beatnum :: "int option"
  code :: string
  codetype :: string
  wavecomponent :: string
  wavecomponent2 :: string
  timecode :: string
  val :: string
  val_unit :: string
  low :: string
  low_unit :: string
  high :: string
  high_unit :: string
  lead :: string

text \<open>The boundary slot, the loop variable \<^verbatim>\<open>param\<close> of \<^verbatim>\<open>anns_to_ms\<close>.\<close>

datatype param = Value | Low | High

fun ecglib_suffix :: "param \<Rightarrow> string" where
  "ecglib_suffix Value = ''PEAK''"
| "ecglib_suffix Low = ''ON''"
| "ecglib_suffix High = ''OFF''"

fun slot :: "annotation \<Rightarrow> param \<Rightarrow> string" where
  "slot ann Value = val ann"
| "slot ann Low = low ann"
| "slot ann High = high ann"

fun slot_unit :: "annotation \<Rightarrow> param \<Rightarrow> string" where
  "slot_unit ann Value = val_unit ann"
| "slot_unit ann Low = low_unit ann"
| "slot_unit ann High = high_unit ann"

text \<open>Python's \<^verbatim>\<open>s.split(c)\<close> for a one-character separator, and \<^verbatim>\<open>xs[i]\<close>.\<close>

fun split_chr :: "char \<Rightarrow> string \<Rightarrow> string list" where
  "split_chr c [] = [[]]"
| "split_chr c (x # xs) =
     (if x = c then [] # split_chr c xs
      else (case split_chr c xs of
              w # ws \<Rightarrow> (x # w) # ws
            | [] \<Rightarrow> [[x]]))"

definition index :: "'a list \<Rightarrow> nat \<Rightarrow> py_error + 'a" where
  "index xs i = (if i < length xs then Inr (xs ! i) else Inl IndexError)"

definition annsufix :: "annotation \<Rightarrow> param \<Rightarrow> string" where
  "annsufix ann p =
     (if wavecomponent2 ann = ''MDC_ECG_WAVC_PEAK'' then ''PEAK'' else ecglib_suffix p)"

text \<open>
  The value of \<^verbatim>\<open>lead_ann["ECGLIBANNTYPE"]\<close> after the \<^verbatim>\<open>if\<close>/\<^verbatim>\<open>elif\<close>
  cascade of \<^verbatim>\<open>anns_to_ms\<close> for one annotation and one slot. The cell starts as
  the empty string and keeps it in the branches that assign nothing.
\<close>

definition ecglibanntype :: "annotation \<Rightarrow> param \<Rightarrow> py_error + string" where
  "ecglibanntype ann p =
    (if codetype ann = ''MDC_ECG_WAVC_PWAVE'' \<or> wavecomponent ann = ''MDC_ECG_WAVC_PWAVE''
        \<or> wavecomponent2 ann = ''MDC_ECG_WAVC_PWAVE''
     then Inr (''P'' @ annsufix ann p)
     else if codetype ann = ''MDC_ECG_WAVC_QRSWAVE'' \<or> wavecomponent ann = ''MDC_ECG_WAVC_QRSWAVE''
        \<or> wavecomponent2 ann = ''MDC_ECG_WAVC_QRSWAVE''
     then (if p \<noteq> Value then Inr (''Q'' @ annsufix ann p) else Inr (''R'' @ annsufix ann p))
     else if codetype ann = ''MDC_ECG_WAVC_RWAVE'' \<or> wavecomponent ann = ''MDC_ECG_WAVC_RWAVE''
        \<or> wavecomponent2 ann = ''MDC_ECG_WAVC_RWAVE''
     then Inr (''R'' @ annsufix ann p)
     else if codetype ann = ''MDC_ECG_WAVC_TWAVE'' \<or> wavecomponent ann = ''MDC_ECG_WAVC_TWAVE''
        \<or> wavecomponent2 ann = ''MDC_ECG_WAVC_TWAVE''
     then Inr (''T'' @ annsufix ann p)
     else if codetype ann = ''MDC_ECG_WAVC_TYPE'' \<and>
        (wavecomponent ann = ''MDC_ECG_WAVC_PRSEG'' \<or> wavecomponent2 ann = ''MDC_ECG_WAVC_PRSEG'')
     then (if p = Low then Inr (''P'' @ annsufix ann p)
           else if p = High then Inr ''QON'' else Inr [])
     else if codetype ann = ''MDC_ECG_WAVC_TYPE'' \<and>
        (wavecomponent ann = ''MDC_ECG_WAVC_QRSTWAVE'' \<or> wavecomponent2 ann = ''MDC_ECG_WAVC_QRSTWAVE'')
     then (if p = Low then Inr (''Q'' @ annsufix ann p) else Inr (''T'' @ annsufix ann p))
     else if codetype ann = ''MDC_ECG_WAVC_QRSTWAVE'' \<and> wavecomponent ann = ''MDC_ECG_WAVC_QRSTWAVE''
        \<and> wavecomponent2 ann = []
     then (if p = Low then Inr (''Q'' @ annsufix ann p)
           else if p = High then Inr (''T'' @ annsufix ann p) else Inr [])
     else if codetype ann = ''MDC_ECG_WAVC_QWAVE'' \<and>
        (wavecomponent ann = ''MDC_ECG_WAVC_QWAVE'' \<or> wavecomponent2 ann = ''MDC_ECG_WAVC_QWAVE'')
     then (if p = Low then Inr (''Q'' @ annsufix ann p) else Inr (''Q'' @ annsufix ann p))
     else if codetype ann = ''MDC_ECG_WAVC_TYPE'' \<and>
        (wavecomponent ann = ''MDC_ECG_WAVC_QSWAVE'' \<or> wavecomponent2 ann = ''MDC_ECG_WAVC_QSWAVE'')
     then (if p = Low then Inr (''Q'' @ annsufix ann p) else Inr (''Q'' @ annsufix ann p))
     else if codetype ann = ''MDC_ECG_WAVC_SWAVE'' \<and>
        (wavecomponent ann = ''MDC_ECG_WAVC_PEAK'' \<or> wavecomponent2 ann = ''MDC_ECG_WAVC_PEAK'')
     then Inr (''S'' @ annsufix ann p)
     else if codetype ann = ''MDC_ECG_WAVC_STJ'' \<and>
        (wavecomponent ann = ''MDC_ECG_WAVC_PEAK'' \<or> wavecomponent2 ann = ''MDC_ECG_WAVC_PEAK'')
     then Inr ''QOFF''
     else if wavecomponent ann \<noteq> ''MDC_ECG_WAVC_TYPE'' \<and> wavecomponent ann \<noteq> ''MDC_ECG_WAVC''
     then ebind (index (split_chr CHR ''_'' (wavecomponent ann)) 3) (\<lambda>t. Inr (t @ annsufix ann p))
     else if wavecomponent2 ann \<noteq> ''MDC_ECG_WAVC_TYPE'' \<and> wavecomponent2 ann \<noteq> ''MDC_ECG_WAVC''
     then ebind (index (split_chr CHR ''_'' (wavecomponent2 ann)) 3) (\<lambda>t. Inr (t @ annsufix ann p))
     else ebind (index (split_chr CHR ''_'' (codetype ann)) 3) (\<lambda>t. Inr (t @ annsufix ann p)))"

text \<open>
  The conditions of the eleven branches that precede the final \<^verbatim>\<open>else\<close> of the
  cascade, and the code that the final \<^verbatim>\<open>else\<close> splits.
\<close>

definition rule_1_to_11 :: "annotation \<Rightarrow> bool" where
  "rule_1_to_11 ann \<longleftrightarrow>
     (codetype ann = ''MDC_ECG_WAVC_PWAVE'' \<or> wavecomponent ann = ''MDC_ECG_WAVC_PWAVE''
        \<or> wavecomponent2 ann = ''MDC_ECG_WAVC_PWAVE'')
   \<or> (codetype ann = ''MDC_ECG_WAVC_QRSWAVE'' \<or> wavecomponent ann = ''MDC_ECG_WAVC_QRSWAVE''
        \<or> wavecomponent2 ann = ''MDC_ECG_WAVC_QRSWAVE'')
   \<or> (codetype ann = ''MDC_ECG_WAVC_RWAVE'' \<or> wavecomponent ann = ''MDC_ECG_WAVC_RWAVE''
        \<or> wavecomponent2 ann = ''MDC_ECG_WAVC_RWAVE'')
   \<or> (codetype ann = ''MDC_ECG_WAVC_TWAVE'' \<or> wavecomponent ann = ''MDC_ECG_WAVC_TWAVE''
        \<or> wavecomponent2 ann = ''MDC_ECG_WAVC_TWAVE'')
   \<or> (codetype ann = ''MDC_ECG_WAVC_TYPE'' \<and>
        (wavecomponent ann = ''MDC_ECG_WAVC_PRSEG'' \<or> wavecomponent2 ann = ''MDC_ECG_WAVC_PRSEG''))
   \<or> (codetype ann = ''MDC_ECG_WAVC_TYPE'' \<and>
        (wavecomponent ann = ''MDC_ECG_WAVC_QRSTWAVE'' \<or> wavecomponent2 ann = ''MDC_ECG_WAVC_QRSTWAVE''))
   \<or> (codetype ann = ''MDC_ECG_WAVC_QRSTWAVE'' \<and> wavecomponent ann = ''MDC_ECG_WAVC_QRSTWAVE''
        \<and> wavecomponent2 ann = [])
   \<or> (codetype ann = ''MDC_ECG_WAVC_QWAVE'' \<and>
        (wavecomponent ann = ''MDC_ECG_WAVC_QWAVE'' \<or> wavecomponent2 ann = ''MDC_ECG_WAVC_QWAVE''))
   \<or> (codetype ann = ''MDC_ECG_WAVC_TYPE'' \<and>
        (wavecomponent ann = ''MDC_ECG_WAVC_QSWAVE'' \<or> wavecomponent2 ann = ''MDC_ECG_WAVC_QSWAVE''))
   \<or> (codetype ann = ''MDC_ECG_WAVC_SWAVE'' \<and>
        (wavecomponent ann = ''MDC_ECG_WAVC_PEAK'' \<or> wavecomponent2 ann = ''MDC_ECG_WAVC_PEAK''))
   \<or> (codetype ann = ''MDC_ECG_WAVC_STJ'' \<and>
        (wavecomponent ann = ''MDC_ECG_WAVC_PEAK'' \<or> wavecomponent2 ann = ''MDC_ECG_WAVC_PEAK''))"

definition fallback_code :: "annotation \<Rightarrow> string" where
  "fallback_code ann =
     (if wavecomponent ann \<noteq> ''MDC_ECG_WAVC_TYPE'' \<and> wavecomponent ann \<noteq> ''MDC_ECG_WAVC''
      then wavecomponent ann
      else if wavecomponent2 ann \<noteq> ''MDC_ECG_WAVC_TYPE'' \<and> wavecomponent2 ann \<noteq> ''MDC_ECG_WAVC''
      then wavecomponent2 ann
      else codetype ann)"

text \<open>An annotation with a five-token wave component and no other code.\<close>

definition ann_five_tokens :: annotation where
  "ann_five_tokens =
     \<lparr>anngrpid = 0, beatnum = None, code = [], codetype = ''MDC_ECG_WAVC_TYPE'',
      wavecomponent = ''MDC_ECG_WAVC_U_WAVE'', wavecomponent2 = [],
      timecode = ''TIME_RELATIVE'', val = ''100'', val_unit = ''ms'',
      low = ''90'', low_unit = ''ms'', high = ''110'', high_unit = ''ms'', lead = []\<rparr>"

text \<open>An annotation of the QRS wave on lead II, with onset and offset.\<close>

definition ann_qrs :: annotation where
  "ann_qrs =
     \<lparr>anngrpid = 0, beatnum = Some 0, code = ''MDC_ECG_WAVC'', codetype = ''MDC_ECG_WAVC_QRSWAVE'',
      wavecomponent = ''MDC_ECG_WAVC_TYPE'', wavecomponent2 = [],
      timecode = ''TIME_RELATIVE'', val = ''160'', val_unit = ''ms'',
      low = ''140'', low_unit = ''ms'', high = ''180'', high_unit = ''ms'',
      lead = ''MDC_ECG_LEAD_II''\<rparr>"

section \<open>HL7 timestamps (core.py, parse_hl7_datetime)\<close>

text \<open>
  A naive \<^verbatim>\<open>datetime.datetime\<close> value. The constructor checks the calendar ranges and
  raises \<^verbatim>\<open>ValueError\<close> outside them.
\<close>

record datetime =
  year :: nat
  month :: nat
  day :: nat
  hour :: nat
  minute :: nat
  second :: nat
  microsecond :: nat

definition is_digit :: "char \<Rightarrow> bool" where
  "is_digit c \<longleftrightarrow> c \<in> set ''0123456789''"

definition digit_val :: "char \<Rightarrow> nat" where
  "digit_val c = of_char c - 48"

definition digits_val :: "string \<Rightarrow> nat" where
  "digits_val s = foldl (\<lambda>a c. 10 * a + digit_val c) 0 s"

definition parse_digits :: "string \<Rightarrow> nat \<Rightarrow> nat option" where
  "parse_digits s n =
     (if length s = n \<and> list_all is_digit s then Some (digits_val s) else None)"

definition is_leap :: "nat \<Rightarrow> bool" where
  "is_leap y \<longleftrightarrow> y mod 4 = 0 \<and> (y mod 100 \<noteq> 0 \<or> y mod 400 = 0)"

definition days_in_month :: "nat \<Rightarrow> nat \<Rightarrow> nat" where
  "days_in_month y m =
     (if m = 2 then (if is_leap y then 29 else 28)
      else if m \<in> {4, 6, 9, 11} then 30 else 31)"

definition datetime_new ::
  "nat \<Rightarrow> nat \<Rightarrow> nat \<Rightarrow> nat \<Rightarrow> nat \<Rightarrow> nat \<Rightarrow> nat \<Rightarrow> py_error + datetime" where
  "datetime_new y m d hh mi ss us =
     (if 1 \<le> y \<and> y \<le> 9999 \<and> 1 \<le> m \<and> m \<le> 12 \<and> 1 \<le> d \<and> d \<le> days_in_month y m
         \<and> hh \<le> 23 \<and> mi \<le> 59 \<and> ss \<le> 59 \<and> us \<le> 999999
      then Inr \<lparr>year = y, month = m, day = d, hour = hh, minute = mi, second = ss,
                microsecond = us\<rparr>
      else Inl ValueError)"

text \<open>
  \<^verbatim>\<open>datetime.datetime.fromisoformat\<close> of the interpreters that the package's pinned
  dependencies run on (CPython 3.7 and 3.8; \<^verbatim>\<open>setup.py\<close> requires Python 3.7.7 or
  later with pandas 1.0.5 and numpy 1.18.5). The date is exactly \<^verbatim>\<open>YYYY-MM-DD\<close>; one
  separator character and a time \<^verbatim>\<open>HH[:MM[:SS[.fff[fff]]]]\<close> may follow, the fraction
  having exactly three or six digits. Reduced dates such as \<^verbatim>\<open>YYYY\<close> and
  \<^verbatim>\<open>YYYY-MM\<close> are rejected (by every CPython release to date).

  The time parser follows CPython's \<^verbatim>\<open>parse_hh_mm_ss_ff\<close>: after each two-digit
  field it reads one more character; nothing after that character is an error, a colon
  goes on to the next field (after the seconds: to the fraction), a full stop goes to the
  fraction.

  A time part that contains a sign character is rejected here. \<^verbatim>\<open>parse_hl7_datetime\<close>
  is the only caller: in the strings it builds the fields have at most two characters and
  the fraction at most three, and then the text from the first sign on never is a
  well-formed UTC offset of 6, 9 or 16 characters, so CPython raises \<^verbatim>\<open>ValueError\<close>.
\<close>

definition parse_fraction :: "string \<Rightarrow> nat option" where
  "parse_fraction f =
     (if length f = 3 then map_option (\<lambda>n. n * 1000) (parse_digits f 3)
      else if length f = 6 then parse_digits f 6
      else None)"

definition parse_hh_mm_ss_ff :: "string \<Rightarrow> (nat \<times> nat \<times> nat \<times> nat) option" where
  "parse_hh_mm_ss_ff t =
     (case parse_digits (take 2 t) 2 of
        None \<Rightarrow> None
      | Some hh \<Rightarrow>
         (case drop 2 t of
            [] \<Rightarrow> Some (hh, 0, 0, 0)
          | c1 # r1 \<Rightarrow>
             if r1 = [] then None
             else if c1 = CHR ''.'' then map_option (\<lambda>us. (hh, 0, 0, us)) (parse_fraction r1)
             else if c1 \<noteq> CHR '':'' then None
             else
              (case parse_digits (take 2 r1) 2 of
                 None \<Rightarrow> None
               | Some mi \<Rightarrow>
                  (case drop 2 r1 of
                     [] \<Rightarrow> Some (hh, mi, 0, 0)
                   | c2 # r2 \<Rightarrow>
                      if r2 = [] then None
                      else if c2 = CHR ''.''
                      then map_option (\<lambda>us. (hh, mi, 0, us)) (parse_fraction r2)
                      else if c2 \<noteq> CHR '':'' then None
                      else
                       (case parse_digits (take 2 r2) 2 of
                          None \<Rightarrow> None
                        | Some ss \<Rightarrow>
                           (case drop 2 r2 of
                              [] \<Rightarrow> Some (hh, mi, ss, 0)
                            | c3 # r3 \<Rightarrow>
                               if r3 = [] then None
                               else if c3 = CHR ''.'' \<or> c3 = CHR '':''
                               then map_option (\<lambda>us. (hh, mi, ss, us)) (parse_fraction r3)
                               else None))))))"

definition fromisoformat :: "string \<Rightarrow> py_error + datetime" where
  "fromisoformat s =
     (if length s < 10 \<or> s ! 4 \<noteq> CHR ''-'' \<or> s ! 7 \<noteq> CHR ''-'' then Inl ValueError
      else
       (case (parse_digits (take 4 s) 4, parse_digits (take 2 (drop 5 s)) 2,
              parse_digits (take 2 (drop 8 s)) 2) of
          (Some y, Some m, Some d) \<Rightarrow>
            (if length s = 10 then datetime_new y m d 0 0 0 0
             else if CHR ''+'' \<in> set (drop 11 s) \<or> CHR ''-'' \<in> set (drop 11 s)
             then Inl ValueError
             else
              (case parse_hh_mm_ss_ff (drop 11 s) of
                 None \<Rightarrow> Inl ValueError
               | Some (hh, mi, ss, us) \<Rightarrow> datetime_new y m d hh mi ss us))
        | _ \<Rightarrow> Inl ValueError))"

text \<open>
  \<^verbatim>\<open>parse_hl7_datetime\<close>: the text before the first full stop is cut into fields by
  position (Python slices: \<open>take\<close> and \<open>drop\<close>), the ISO string is built as far as the
  length of that text reaches, and \<^verbatim>\<open>fromisoformat\<close> reads it.
\<close>

definition parse_hl7_datetime :: "string \<Rightarrow> py_error + datetime" where
  "parse_hl7_datetime hl7time =
     (let splitted_datetime = split_chr CHR ''.'' hl7time;
          datatime_str = (case splitted_datetime of [] \<Rightarrow> [] | d # _ \<Rightarrow> d);
          mstz_str = (case splitted_datetime of _ # m # _ \<Rightarrow> m | _ \<Rightarrow> []);
          isodatetime_str =
            take 4 datatime_str @
            (if length datatime_str > 4 then
               ''-'' @ take 2 (drop 4 datatime_str) @
               (if length datatime_str > 6 then
                  ''-'' @ take 2 (drop 6 datatime_str) @
                  (if length datatime_str > 8 then
                     '' '' @ take 2 (drop 8 datatime_str) @
                     (if length datatime_str > 10 then
                        '':'' @ take 2 (drop 10 datatime_str) @
                        (if length datatime_str > 12 then
                           '':'' @ take 2 (drop 12 datatime_str) @
                           (if length mstz_str > 0 then ''.'' @ take 3 mstz_str else [])
                         else [])
                      else [])
                   else [])
                else [])
             else [])
      in fromisoformat isodatetime_str)"

text \<open>
  The difference of two timestamps in milliseconds,
  \<^verbatim>\<open>(a - b).total_seconds() * 1e3\<close>, through the proleptic Gregorian day number.
\<close>

definition days_before_year :: "nat \<Rightarrow> nat" where
  "days_before_year y = (y - 1) * 365 + (y - 1) div 4 - (y - 1) div 100 + (y - 1) div 400"

definition days_before_month :: "nat \<Rightarrow> nat \<Rightarrow> nat" where
  "days_before_month y m = sum_list (map (days_in_month y) [1..<m])"

definition toordinal :: "datetime \<Rightarrow> nat" where
  "toordinal dt = days_before_year (year dt) + days_before_month (year dt) (month dt) + day dt"

definition to_microseconds :: "datetime \<Rightarrow> int" where
  "to_microseconds dt =
     (((int (toordinal dt) * 24 + int (hour dt)) * 60 + int (minute dt)) * 60 + int (second dt))
       * 1000000 + int (microsecond dt)"

definition diff_ms :: "datetime \<Rightarrow> datetime \<Rightarrow> real" where
  "diff_ms a b = real_of_int (to_microseconds a - to_microseconds b) / 1000000 * 1000"

section \<open>Projection of annotations onto the time axis (core.py, Aecg.anns_to_ms)\<close>

text \<open>
  A Python float: a finite value (idealised as a real, not rounded), an infinity, or NaN.
  A result whose magnitude reaches the overflow threshold of binary64 (the midpoint between
  the largest double and \<open>2 ^ 1024\<close>) is an infinity.
\<close>

datatype pyfloat = Finite real | PosInf | NegInf | NaN

definition overflow :: "real \<Rightarrow> pyfloat" where
  "overflow v =
     (if 2 ^ 1024 - 2 ^ 970 \<le> v then PosInf
      else if v \<le> - (2 ^ 1024 - 2 ^ 970) then NegInf
      else Finite v)"

text \<open>The product of a float and a positive constant (\<^verbatim>\<open>1e-3\<close>, \<^verbatim>\<open>1e3\<close>).\<close>

definition fscale :: "pyfloat \<Rightarrow> real \<Rightarrow> pyfloat" where
  "fscale x c = (case x of Finite v \<Rightarrow> overflow (v * c) | _ \<Rightarrow> x)"

text \<open>
  Python's \<^verbatim>\<open>float(s)\<close> on a string of code points below 256 (a \<open>char\<close> stands for
  its code point). The no-break space and the next-line character count as blanks; blanks
  (these and the ASCII white space) are stripped at both ends. An underscore is admitted
  between two digits and removed. What is left is an optional sign followed by
  \<^verbatim>\<open>inf\<close>, \<^verbatim>\<open>infinity\<close> or \<^verbatim>\<open>nan\<close> in any case, or by a decimal numeral: digits
  with an optional fraction (at least one digit in all) and an optional exponent. Any other
  text raises \<^verbatim>\<open>ValueError\<close>.
\<close>

definition is_space :: "char \<Rightarrow> bool" where
  "is_space c \<longleftrightarrow> of_char c \<in> {9, 10, 11, 12, 13, 32, 133, 160 :: nat}"

definition strip :: "string \<Rightarrow> string" where
  "strip s = rev (dropWhile is_space (rev (dropWhile is_space s)))"

fun underscores_ok :: "char \<Rightarrow> string \<Rightarrow> bool" where
  "underscores_ok prev [] \<longleftrightarrow> prev \<noteq> CHR ''_''"
| "underscores_ok prev (c # cs) \<longleftrightarrow>
     (if c = CHR ''_'' then is_digit prev else prev = CHR ''_'' \<longrightarrow> is_digit c)
     \<and> underscores_ok c cs"

definition lower_chr :: "char \<Rightarrow> char" where
  "lower_chr c =
     (case map_of (zip ''ABCDEFGHIJKLMNOPQRSTUVWXYZ'' ''abcdefghijklmnopqrstuvwxyz'') c of
        None \<Rightarrow> c
      | Some l \<Rightarrow> l)"

definition split_sign :: "string \<Rightarrow> bool \<times> string" where
  "split_sign s =
     (case s of
        [] \<Rightarrow> (False, [])
      | c # r \<Rightarrow> if c = CHR ''-'' then (True, r) else if c = CHR ''+'' then (False, r)
                 else (False, s))"

definition py_float :: "string \<Rightarrow> py_error + pyfloat" where
  "py_float s =
     (let t = strip s;
          (neg, u) = split_sign (filter (\<lambda>c. c \<noteq> CHR ''_'') t);
          mant = takeWhile (\<lambda>c. c \<noteq> CHR ''e'' \<and> c \<noteq> CHR ''E'') u;
          ex = drop (length mant) u;
          ip = takeWhile is_digit mant;
          fr = drop (length ip) mant;
          fp = (case fr of [] \<Rightarrow> [] | _ # f \<Rightarrow> f);
          (eneg, ed) = split_sign (case ex of [] \<Rightarrow> [] | _ # e \<Rightarrow> e)
      in if \<not> underscores_ok (CHR 0x00) t then Inl ValueError
         else if map lower_chr u = ''inf'' \<or> map lower_chr u = ''infinity''
         then Inr (if neg then NegInf else PosInf)
         else if map lower_chr u = ''nan'' then Inr NaN
         else if (fr = [] \<or> hd fr = CHR ''.'') \<and> list_all is_digit fp \<and> ip @ fp \<noteq> []
            \<and> (ex = [] \<or> (ed \<noteq> [] \<and> list_all is_digit ed))
         then Inr (overflow
                ((if neg then - 1 else 1) * real (digits_val (ip @ fp)) / 10 ^ length fp
                   * (if ex = [] then 1
                      else if eneg then 1 / 10 ^ digits_val ed else 10 ^ digits_val ed)))
         else Inl ValueError)"

text \<open>The module constants \<^verbatim>\<open>STD_LEADS\<close> and \<^verbatim>\<open>STD_LEADS_DISPLAYNAMES\<close>.\<close>

definition STD_LEADS :: "string list" where
  "STD_LEADS =
     [''MDC_ECG_LEAD_I'', ''MDC_ECG_LEAD_II'', ''MDC_ECG_LEAD_III'',
      ''MDC_ECG_LEAD_AVR'', ''MDC_ECG_LEAD_AVL'', ''MDC_ECG_LEAD_AVF'',
      ''MDC_ECG_LEAD_V1'', ''MDC_ECG_LEAD_V2'', ''MDC_ECG_LEAD_V3'',
      ''MDC_ECG_LEAD_V4'', ''MDC_ECG_LEAD_V5'', ''MDC_ECG_LEAD_V6'',
      ''MDC_ECG_LEAD_X'', ''MDC_ECG_LEAD_Y'', ''MDC_ECG_LEAD_Z'',
      ''MDC_ECG_LEAD_AVRneg'', ''MDC_ECG_LEAD_AVRNEG'',
      ''MDC_ECG_LEAD_aVR'', ''MDC_ECG_LEAD_aVL'', ''MDC_ECG_LEAD_aVF'']"

definition STD_LEADS_DISPLAYNAMES :: "(string \<times> string) list" where
  "STD_LEADS_DISPLAYNAMES =
     [(''MDC_ECG_LEAD_I'', ''I''), (''MDC_ECG_LEAD_II'', ''II''), (''MDC_ECG_LEAD_III'', ''III''),
      (''MDC_ECG_LEAD_AVR'', ''aVR''), (''MDC_ECG_LEAD_AVL'', ''aVL''),
      (''MDC_ECG_LEAD_AVF'', ''aVF''), (''MDC_ECG_LEAD_AVRneg'', ''-aVR''),
      (''MDC_ECG_LEAD_AVRNEG'', ''-aVR''), (''MDC_ECG_LEAD_V1'', ''V1''),
      (''MDC_ECG_LEAD_V2'', ''V2''), (''MDC_ECG_LEAD_V3'', ''V3''), (''MDC_ECG_LEAD_V4'', ''V4''),
      (''MDC_ECG_LEAD_V5'', ''V5''), (''MDC_ECG_LEAD_V6'', ''V6''),
      (''MORTARA_ECG_LEAD_TEA'', ''Mortara TEA''), (''FDA_ECG_LEAD_VCGMAG'', ''VCGMAG''),
      (''MDC_ECG_LEAD_aVR'', ''aVR''), (''MDC_ECG_LEAD_aVL'', ''aVL''),
      (''MDC_ECG_LEAD_aVF'', ''aVF'')]"

text \<open>\<^verbatim>\<open>str.upper\<close> on ASCII text (it is applied to members of \<open>STD_LEADS\<close> only).\<close>

definition upper_chr :: "char \<Rightarrow> char" where
  "upper_chr c =
     (case map_of (zip ''abcdefghijklmnopqrstuvwxyz'' ''ABCDEFGHIJKLMNOPQRSTUVWXYZ'') c of
        None \<Rightarrow> c
      | Some u \<Rightarrow> u)"

definition upper :: "string \<Rightarrow> string" where
  "upper s = map upper_chr s"

definition leadnam_of :: "annotation \<Rightarrow> py_error + string" where
  "leadnam_of ann =
     (if lead ann \<noteq> [] then
        (if lead ann \<in> set STD_LEADS then
           (case map_of STD_LEADS_DISPLAYNAMES (upper (lead ann)) of
              None \<Rightarrow> Inl KeyError
            | Some n \<Rightarrow> Inr n)
         else Inr (lead ann))
      else Inr ''GLOBAL'')"

text \<open>
  A data frame: \<^verbatim>\<open>pd.DataFrame()\<close>, which has neither columns nor rows, or a frame
  that has its columns and a list of rows (possibly none).
\<close>

datatype 'a frame = NoColumns | Rows "'a list"

text \<open>
  One row of the annotation frame in milliseconds, with the type of the \<^verbatim>\<open>TIME\<close> cell
  as a parameter. In \<^verbatim>\<open>anns_to_ms\<close> the cell is a float or the empty string it was
  created with (\<open>None\<close>); in the interval derivation it is a real.
\<close>

record 't ann_ms =
  ANNGRPID :: int
  BEATNUM :: "int option"
  LEADNAM :: string
  ECGLIBANNTYPE :: string
  ANNTYPE :: string
  TIME :: 't
  HL7LEADNAM :: string

text \<open>
  The rows of \<^verbatim>\<open>leads_start_times\<close> are triples (leadname, code, time). The start
  time in effect after the lookup for one annotation: the local variable
  \<^verbatim>\<open>start_time\<close> is overwritten when the lead of the annotation has a row, and is left
  as it is otherwise.
\<close>

definition next_start_time ::
  "string \<Rightarrow> (string \<times> string \<times> string) list \<Rightarrow> annotation \<Rightarrow> string" where
  "next_start_time start_time leads_start_times ann =
     (case filter (\<lambda>r. fst r = lead ann) leads_start_times of
        [] \<Rightarrow> start_time
      | r # _ \<Rightarrow> snd (snd r))"

text \<open>
  The conversion of a slot by its declared unit. An unrecognised unit assigns nothing
  (\<open>None\<close>: the \<^verbatim>\<open>TIME\<close> cell keeps its empty string).
\<close>

definition relative_time :: "annotation \<Rightarrow> param \<Rightarrow> py_error + pyfloat option" where
  "relative_time ann p =
     (if slot_unit ann p = ''ms'' then ebind (py_float (slot ann p)) (\<lambda>v. Inr (Some v))
      else if slot_unit ann p = ''us''
      then ebind (py_float (slot ann p)) (\<lambda>v. Inr (Some (fscale v (1 / 1000))))
      else if slot_unit ann p = ''s''
      then ebind (py_float (slot ann p)) (\<lambda>v. Inr (Some (fscale v 1000)))
      else Inr None)"

definition absolute_time :: "string \<Rightarrow> annotation \<Rightarrow> param \<Rightarrow> py_error + pyfloat option" where
  "absolute_time start_time ann p =
     ebind (parse_hl7_datetime (slot ann p)) (\<lambda>a.
     ebind (parse_hl7_datetime start_time) (\<lambda>b.
     Inr (Some (Finite (diff_ms a b)))))"

definition ann_time :: "string \<Rightarrow> annotation \<Rightarrow> param \<Rightarrow> py_error + pyfloat option" where
  "ann_time start_time ann p =
     (if timecode ann = ''TIME_ABSOLUTE'' then
        (case absolute_time start_time ann p of
           Inr t \<Rightarrow> Inr t
         | Inl ex \<Rightarrow> relative_time ann p)
      else if timecode ann = ''TIME_RELATIVE'' then relative_time ann p
      else absolute_time start_time ann p)"

text \<open>The row built for one non-empty slot: the label first, then the time.\<close>

definition lead_ann ::
  "string \<Rightarrow> string \<Rightarrow> annotation \<Rightarrow> param \<Rightarrow> py_error + pyfloat option ann_ms" where
  "lead_ann start_time leadnam ann p =
     ebind (ecglibanntype ann p) (\<lambda>lab.
     ebind (ann_time start_time ann p) (\<lambda>t.
     Inr \<lparr>ANNGRPID = anngrpid ann, BEATNUM = beatnum ann, LEADNAM = leadnam,
          ECGLIBANNTYPE = lab,
          ANNTYPE = (if wavecomponent ann \<noteq> ''MDC_ECG_WAVC_TYPE'' then wavecomponent ann
                     else codetype ann),
          TIME = t, HL7LEADNAM = lead ann\<rparr>))"

text \<open>
  \<^verbatim>\<open>sort_values(by=["ANNGRPID", "BEATNUM", "LEADNAM", "TIME"])\<close>: a stable sort on
  the four keys, compared in this order. In a column that mixes numbers and strings pandas
  puts the numbers first and NaN last: an integer \<^verbatim>\<open>BEATNUM\<close> comes before the empty
  string, and in \<^verbatim>\<open>TIME\<close> the floats come before the empty string and NaN after it.
\<close>

definition beatnum_key :: "int option \<Rightarrow> nat \<times> int" where
  "beatnum_key b = (case b of Some n \<Rightarrow> (0, n) | None \<Rightarrow> (1, 0))"

definition time_key :: "pyfloat option \<Rightarrow> nat \<times> real" where
  "time_key t =
     (case t of
        Some NegInf \<Rightarrow> (0, 0)
      | Some (Finite v) \<Rightarrow> (1, v)
      | Some PosInf \<Rightarrow> (2, 0)
      | None \<Rightarrow> (3, 0)
      | Some NaN \<Rightarrow> (4, 0))"

definition row_key ::
  "pyfloat option ann_ms \<Rightarrow> int \<times> (nat \<times> int) \<times> string \<times> (nat \<times> real)" where
  "row_key r = (ANNGRPID r, beatnum_key (BEATNUM r), LEADNAM r, time_key (TIME r))"

definition sort_values :: "pyfloat option ann_ms list \<Rightarrow> pyfloat option ann_ms list" where
  "sort_values res = sort_key row_key res"

text \<open>
  The loop over the slots of one annotation and the loop over the annotations, carrying
  the frame \<^verbatim>\<open>res\<close> (sorted again after each row is appended) and the local variable
  \<^verbatim>\<open>start_time\<close>.
\<close>

fun ann_slots ::
  "string \<Rightarrow> string \<Rightarrow> annotation \<Rightarrow> pyfloat option ann_ms list \<Rightarrow> param list
     \<Rightarrow> py_error + pyfloat option ann_ms list" where
  "ann_slots start_time leadnam ann res [] = Inr res"
| "ann_slots start_time leadnam ann res (p # ps) =
     (if slot ann p \<noteq> [] then
        ebind (lead_ann start_time leadnam ann p) (\<lambda>row.
        ann_slots start_time leadnam ann (sort_values (res @ [row])) ps)
      else ann_slots start_time leadnam ann res ps)"

fun anns_loop ::
  "string \<Rightarrow> (string \<times> string \<times> string) list \<Rightarrow> pyfloat option ann_ms list
     \<Rightarrow> annotation list \<Rightarrow> py_error + pyfloat option ann_ms list" where
  "anns_loop start_time leads_start_times res [] = Inr res"
| "anns_loop start_time leads_start_times res (ann # ecganns) =
     ebind (leadnam_of ann) (\<lambda>leadnam.
     ebind (ann_slots (next_start_time start_time leads_start_times ann) leadnam ann res
              [Value, Low, High]) (\<lambda>res'.
     anns_loop (next_start_time start_time leads_start_times ann) leads_start_times res'
       ecganns))"

text \<open>
  \<^verbatim>\<open>Aecg.anns_to_ms\<close>. If no row was appended, the result is the frame without columns
  that the function started from. Otherwise the rows whose time is NaN or was never
  assigned are removed.
\<close>

definition notna :: "pyfloat option ann_ms \<Rightarrow> bool" where
  "notna r \<longleftrightarrow> TIME r \<noteq> None \<and> TIME r \<noteq> Some NaN"

definition anns_to_ms ::
  "string \<Rightarrow> (string \<times> string \<times> string) list \<Rightarrow> annotation list
     \<Rightarrow> py_error + pyfloat option ann_ms frame" where
  "anns_to_ms start_time leads_start_times ecganns =
     ebind (anns_loop start_time leads_start_times [] ecganns) (\<lambda>res.
       Inr (if length res > 0 then Rows (filter notna res) else NoColumns))"

text \<open>
  For the statements below: the rows in the order in which the loops append them, without
  the sorting; the frame made of such rows; the value of \<^verbatim>\<open>start_time\<close> after the loop
  has run over a list of annotations; an annotation with one slot emptied; a frame with
  its columns.
\<close>

fun slot_rows ::
  "string \<Rightarrow> string \<Rightarrow> annotation \<Rightarrow> param list \<Rightarrow> py_error + pyfloat option ann_ms list"
  where
  "slot_rows start_time leadnam ann [] = Inr []"
| "slot_rows start_time leadnam ann (p # ps) =
     (if slot ann p \<noteq> [] then
        ebind (lead_ann start_time leadnam ann p) (\<lambda>row.
        ebind (slot_rows start_time leadnam ann ps) (\<lambda>rows. Inr (row # rows)))
      else slot_rows start_time leadnam ann ps)"

definition ann_rows :: "string \<Rightarrow> annotation \<Rightarrow> py_error + pyfloat option ann_ms list" where
  "ann_rows start_time ann =
     ebind (leadnam_of ann) (\<lambda>leadnam. slot_rows start_time leadnam ann [Value, Low, High])"

fun appended_rows ::
  "string \<Rightarrow> (string \<times> string \<times> string) list \<Rightarrow> annotation list
     \<Rightarrow> py_error + pyfloat option ann_ms list" where
  "appended_rows start_time leads_start_times [] = Inr []"
| "appended_rows start_time leads_start_times (ann # ecganns) =
     ebind (ann_rows (next_start_time start_time leads_start_times ann) ann) (\<lambda>rows.
     ebind (appended_rows (next_start_time start_time leads_start_times ann) leads_start_times
              ecganns) (\<lambda>res.
     Inr (rows @ res)))"

definition frame_of :: "pyfloat option ann_ms list \<Rightarrow> pyfloat option ann_ms frame" where
  "frame_of rows = (if rows = [] then NoColumns else Rows (filter notna (sort_values rows)))"

definition start_time_after ::
  "string \<Rightarrow> (string \<times> string \<times> string) list \<Rightarrow> annotation list \<Rightarrow> string" where
  "start_time_after start_time leads_start_times ecganns =
     foldl (\<lambda>s a. next_start_time s leads_start_times a) start_time ecganns"

fun clear_slot :: "annotation \<Rightarrow> param \<Rightarrow> annotation" where
  "clear_slot ann Value = ann\<lparr>val := []\<rparr>"
| "clear_slot ann Low = ann\<lparr>low := []\<rparr>"
| "clear_slot ann High = ann\<lparr>high := []\<rparr>"

fun with_columns :: "'a frame \<Rightarrow> 'a frame" where
  "with_columns NoColumns = Rows []"
| "with_columns (Rows rs) = Rows rs"

fun rows_of :: "'a frame \<Rightarrow> 'a list" where
  "rows_of NoColumns = []"
| "rows_of (Rows rs) = rs"

text \<open>
  Sample annotations: a T-wave peak tagged \<^verbatim>\<open>TIME_ABSOLUTE\<close> whose value is the text
  \<^verbatim>\<open>abc\<close> with the unit \<^verbatim>\<open>ms\<close>; a T-wave offset on the global lead with an HL7
  timestamp; a QRS offset on lead II with the same timestamp.
\<close>

definition ann_abs_text :: annotation where
  "ann_abs_text =
     \<lparr>anngrpid = 0, beatnum = None, code = [], codetype = ''MDC_ECG_WAVC_TWAVE'',
      wavecomponent = ''MDC_ECG_WAVC_TYPE'', wavecomponent2 = [],
      timecode = ''TIME_ABSOLUTE'', val = ''abc'', val_unit = ''ms'',
      low = [], low_unit = [], high = [], high_unit = [], lead = []\<rparr>"

definition ann_abs :: annotation where
  "ann_abs =
     \<lparr>anngrpid = 0, beatnum = None, code = [], codetype = ''MDC_ECG_WAVC_TWAVE'',
      wavecomponent = ''MDC_ECG_WAVC_TYPE'', wavecomponent2 = [],
      timecode = ''TIME_ABSOLUTE'', val = [], val_unit = [],
      low = [], low_unit = [], high = ''20021122091002'', high_unit = [], lead = []\<rparr>"

definition ann_lead_abs :: annotation where
  "ann_lead_abs =
     \<lparr>anngrpid = 0, beatnum = None, code = [], codetype = ''MDC_ECG_WAVC_QRSWAVE'',
      wavecomponent = ''MDC_ECG_WAVC_TYPE'', wavecomponent2 = [],
      timecode = ''TIME_ABSOLUTE'', val = [], val_unit = [],
      low = [], low_unit = [], high = ''20021122091002'', high_unit = [],
      lead = ''MDC_ECG_LEAD_II''\<rparr>"

text \<open>The rows that these annotations give, at a time in milliseconds.\<close>

definition row_global_toff :: "real \<Rightarrow> pyfloat option ann_ms" where
  "row_global_toff t =
     \<lparr>ANNGRPID = 0, BEATNUM = None, LEADNAM = ''GLOBAL'', ECGLIBANNTYPE = ''TOFF'',
      ANNTYPE = ''MDC_ECG_WAVC_TWAVE'', TIME = Some (Finite t), HL7LEADNAM = []\<rparr>"

definition row_ii_qoff :: "real \<Rightarrow> pyfloat option ann_ms" where
  "row_ii_qoff t =
     \<lparr>ANNGRPID = 0, BEATNUM = None, LEADNAM = ''II'', ECGLIBANNTYPE = ''QOFF'',
      ANNTYPE = ''MDC_ECG_WAVC_QRSWAVE'', TIME = Some (Finite t),
      HL7LEADNAM = ''MDC_ECG_LEAD_II''\<rparr>"

section \<open>Interval derivation (indexing.py, get_aecg_intervals)\<close>

text \<open>
  A row of the working frame \<^verbatim>\<open>tmp\<close>: a copy of the annotation row with the six
  interval columns, which start as NaN (\<open>None\<close>).
\<close>

record tmp_row = "real ann_ms" +
  RR :: "real option"
  PR :: "real option"
  QRS :: "real option"
  QT :: "real option"
  QTRR :: "real option"
  QTCF :: "real option"

definition init_row :: "real ann_ms \<Rightarrow> tmp_row" where
  "init_row r =
     \<lparr>ANNGRPID = ANNGRPID r, BEATNUM = BEATNUM r, LEADNAM = LEADNAM r,
      ECGLIBANNTYPE = ECGLIBANNTYPE r, ANNTYPE = ANNTYPE r, TIME = TIME r,
      HL7LEADNAM = HL7LEADNAM r,
      RR = None, PR = None, QRS = None, QT = None, QTRR = None, QTCF = None\<rparr>"

text \<open>The local variables of the scan; NaN is \<open>None\<close>.\<close>

record scan_state =
  current_lead :: string
  preceeding_R :: "real option"
  current_R :: "real option"
  last_rr :: "real option"
  last_pon :: "real option"
  last_qon :: "real option"
  last_qoff :: "real option"
  last_toff :: "real option"
  last_qt :: "real option"

definition init_state :: scan_state where
  "init_state =
     \<lparr>current_lead = [], preceeding_R = None, current_R = None, last_rr = None,
      last_pon = None, last_qon = None, last_qoff = None, last_toff = None, last_qt = None\<rparr>"

text \<open>Subtraction of floats of which either may be NaN.\<close>

definition nan_sub :: "real option \<Rightarrow> real option \<Rightarrow> real option" where
  "nan_sub a b = (case (a, b) of (Some x, Some y) \<Rightarrow> Some (x - y) | _ \<Rightarrow> None)"

text \<open>\<^verbatim>\<open>xs[-1]\<close>: the last element, \<^verbatim>\<open>IndexError\<close> on an empty array.\<close>

definition index_last :: "'a list \<Rightarrow> py_error + 'a" where
  "index_last xs = (if xs = [] then Inl IndexError else Inr (last xs))"

text \<open>
  \<^verbatim>\<open>last_qt/(((last_rr)/1000.0)**(1/3))\<close>. A NaN operand gives NaN. The scan only ever
  stores a positive difference in \<^verbatim>\<open>last_rr\<close> (lemma \<open>scan_step_ok\<close> below),
  so the branch for a value that is not positive is never taken by \<open>scan\<close>.
\<close>

definition qtcf :: "real option \<Rightarrow> real option \<Rightarrow> real option" where
  "qtcf qt rr =
     (case (qt, rr) of
        (Some q, Some r) \<Rightarrow> if 0 < r then Some (q / (r / 1000) powr (1 / 3)) else None
      | _ \<Rightarrow> None)"

text \<open>The blocks of the loop body, in the order of the source.\<close>

definition reset_lead :: "scan_state \<Rightarrow> tmp_row \<Rightarrow> scan_state" where
  "reset_lead st ann =
     (if current_lead st = [] \<or> current_lead st \<noteq> LEADNAM ann
      then \<lparr>current_lead = LEADNAM ann, preceeding_R = None, current_R = None, last_rr = None,
            last_pon = None, last_qon = None, last_qoff = None, last_toff = None,
            last_qt = None\<rparr>
      else st)"

definition on_rpeak :: "scan_state \<times> tmp_row \<Rightarrow> scan_state \<times> tmp_row" where
  "on_rpeak = (\<lambda>(st, ann).
     if ECGLIBANNTYPE ann = ''RPEAK'' then
       (if (case current_R st of None \<Rightarrow> True | Some c \<Rightarrow> TIME ann > c)
        then (st\<lparr>preceeding_R := current_R st, current_R := Some (TIME ann),
                  last_rr := nan_sub (Some (TIME ann)) (current_R st)\<rparr>,
              ann\<lparr>RR := nan_sub (Some (TIME ann)) (current_R st)\<rparr>)
        else (st, ann))
     else (st, ann))"

definition on_pon :: "scan_state \<times> tmp_row \<Rightarrow> scan_state \<times> tmp_row" where
  "on_pon = (\<lambda>(st, ann).
     if ECGLIBANNTYPE ann = ''PON'' then (st\<lparr>last_pon := Some (TIME ann)\<rparr>, ann)
     else (st, ann))"

definition on_qon :: "scan_state \<times> tmp_row \<Rightarrow> scan_state \<times> tmp_row" where
  "on_qon = (\<lambda>(st, ann).
     if ECGLIBANNTYPE ann = ''QON'' \<or>
        (ECGLIBANNTYPE ann = ''RON'' \<and>
          (case last_qon st of None \<Rightarrow> True | Some q \<Rightarrow> TIME ann - q > 400))
     then (st\<lparr>last_qon := Some (TIME ann), last_pon := None, last_qoff := None,
               last_toff := None, last_qt := None\<rparr>,
           ann\<lparr>PR := nan_sub (Some (TIME ann)) (last_pon st)\<rparr>)
     else (st, ann))"

definition on_qoff :: "scan_state \<times> tmp_row \<Rightarrow> scan_state \<times> tmp_row" where
  "on_qoff = (\<lambda>(st, ann).
     if ECGLIBANNTYPE ann = ''QOFF'' \<or> ECGLIBANNTYPE ann = ''STJPEAK''
     then (st\<lparr>last_qoff := Some (TIME ann)\<rparr>,
           ann\<lparr>QRS := nan_sub (Some (TIME ann)) (last_qon st)\<rparr>)
     else (st, ann))"

text \<open>
  The search for a QT onset when the lead has none: \<^verbatim>\<open>anns_df_in_ms\<close> is the frame as
  it was passed in (not sorted), so \<^verbatim>\<open>global_qons\<close> and \<^verbatim>\<open>local_qons\<close> are in the
  row order of the argument.
\<close>

definition find_qt ::
  "real ann_ms list \<Rightarrow> scan_state \<times> tmp_row \<Rightarrow> py_error + scan_state \<times> tmp_row" where
  "find_qt anns_df_in_ms = (\<lambda>(st, ann).
     case last_qon st of
       Some q \<Rightarrow> Inr (st\<lparr>last_qt := Some (TIME ann - q)\<rparr>, ann)
     | None \<Rightarrow>
        (let global_qons = map TIME (filter (\<lambda>r. LEADNAM r = ''GLOBAL'' \<and> ECGLIBANNTYPE r = ''QON'')
                                       anns_df_in_ms)
         in if length global_qons > 0 then
              ebind (index_last (filter (\<lambda>d. d > 0) (map (\<lambda>q. TIME ann - q) global_qons)))
                (\<lambda>d. Inr (st\<lparr>last_qt := Some d\<rparr>, ann))
            else if LEADNAM ann = ''GLOBAL'' then
              (let local_qons = map TIME (filter (\<lambda>r. ANNGRPID r = ANNGRPID ann \<and>
                                                      ECGLIBANNTYPE r = ''QON'') anns_df_in_ms)
               in if length local_qons = 1 then
                    (if TIME ann - hd local_qons > 0 then
                       ebind (index (filter (\<lambda>r. ANNGRPID r = ANNGRPID ann \<and>
                                                 ECGLIBANNTYPE r = ''QON'' \<and>
                                                 TIME r = hd local_qons) anns_df_in_ms) 0)
                         (\<lambda>src. Inr (st\<lparr>last_qt := Some (TIME ann - hd local_qons)\<rparr>,
                                     ann\<lparr>HL7LEADNAM := HL7LEADNAM src, LEADNAM := LEADNAM src\<rparr>))
                     else Inr (st, ann))
                  else Inr (st, ann))
            else Inr (st, ann)))"

definition on_toff ::
  "real ann_ms list \<Rightarrow> scan_state \<times> tmp_row \<Rightarrow> py_error + scan_state \<times> tmp_row" where
  "on_toff anns_df_in_ms = (\<lambda>(st, ann).
     if ECGLIBANNTYPE ann = ''TOFF'' then
       ebind (find_qt anns_df_in_ms (st\<lparr>last_toff := Some (TIME ann)\<rparr>, ann)) (\<lambda>(st', ann').
         Inr (st'\<lparr>last_pon := None, last_qon := None, last_qoff := None, last_toff := None\<rparr>,
              ann'\<lparr>QT := last_qt st', QTRR := last_rr st',
                    QTCF := qtcf (last_qt st') (last_rr st')\<rparr>))
     else Inr (st, ann))"

definition scan_step ::
  "real ann_ms list \<Rightarrow> scan_state \<Rightarrow> tmp_row \<Rightarrow> py_error + scan_state \<times> tmp_row" where
  "scan_step anns_df_in_ms st ann =
     on_toff anns_df_in_ms (on_qoff (on_qon (on_pon (on_rpeak (reset_lead st ann, ann)))))"

fun scan :: "real ann_ms list \<Rightarrow> scan_state \<Rightarrow> tmp_row list \<Rightarrow> py_error + tmp_row list" where
  "scan anns_df_in_ms st [] = Inr []"
| "scan anns_df_in_ms st (ann # anns) =
     ebind (scan_step anns_df_in_ms st ann) (\<lambda>(st', ann').
     ebind (scan anns_df_in_ms st' anns) (\<lambda>res. Inr (ann' # res)))"

text \<open>
  The frame \<^verbatim>\<open>tmp\<close> after the loop: sorted (a stable sort on the three keys) and scanned
  from the initial state.
\<close>

definition aecg_tmp :: "real ann_ms list \<Rightarrow> py_error + tmp_row list" where
  "aecg_tmp anns_df_in_ms =
     scan anns_df_in_ms init_state
       (sort_key (\<lambda>r. (LEADNAM r, HL7LEADNAM r, TIME r)) (map init_row anns_df_in_ms))"

section \<open>Aggregation (indexing.py, get_interval_count_and_avg)\<close>

text \<open>
  A row of the long frame: lead, HL7 lead, time (NaN in the summary rows), parameter,
  value, and the kind of row (empty for a single interval, \<^verbatim>\<open>COUNT\<close>, \<^verbatim>\<open>AVERAGE\<close>).
\<close>

record interval =
  iLEADNAM :: string
  iHL7LEADNAM :: string
  iTIME :: "real option"
  PARAMCD :: string
  AVAL :: "real option"
  DTYPE :: string

definition group_key :: "interval \<Rightarrow> string \<times> string \<times> string" where
  "group_key r = (iLEADNAM r, iHL7LEADNAM r, PARAMCD r)"

definition group_of :: "interval list \<Rightarrow> string \<times> string \<times> string \<Rightarrow> real list" where
  "group_of anns_df k = map (\<lambda>r. the (AVAL r)) (filter (\<lambda>r. AVAL r \<noteq> None \<and> group_key r = k) anns_df)"

definition summary_row :: "string \<times> string \<times> string \<Rightarrow> real \<Rightarrow> string \<Rightarrow> interval" where
  "summary_row k v d =
     \<lparr>iLEADNAM = fst k, iHL7LEADNAM = fst (snd k), iTIME = None, PARAMCD = snd (snd k),
      AVAL = Some v, DTYPE = d\<rparr>"

text \<open>
  The rows with a value are grouped by the three keys (pandas sorts the group keys); each
  group gives its number of rows and the mean of its values. A frame without rows (with or
  without columns: the argument is the list of its rows) gives \<^verbatim>\<open>pd.DataFrame()\<close>.
\<close>

definition get_interval_count_and_avg :: "interval list \<Rightarrow> bool \<Rightarrow> interval frame" where
  "get_interval_count_and_avg anns_df include_all_found_intervals =
     (if length anns_df > 0 then
        (let keys = sort (remdups (map group_key (filter (\<lambda>r. AVAL r \<noteq> None) anns_df)));
             qt_count = map (\<lambda>k. summary_row k (real (length (group_of anns_df k))) ''COUNT'') keys;
             qt_avg = map (\<lambda>k. summary_row k
                           (sum_list (group_of anns_df k) / real (length (group_of anns_df k)))
                           ''AVERAGE'') keys;
             res = qt_count @ qt_avg
         in if include_all_found_intervals then Rows (anns_df @ res) else Rows res)
      else NoColumns)"

text \<open>
  The end of \<^verbatim>\<open>get_aecg_intervals\<close>: the six columns are melted into long form
  (column by column), the NaN rows are dropped, the rest is sorted by lead and time and
  handed to the aggregation.
\<close>

definition melt :: "tmp_row list \<Rightarrow> interval list" where
  "melt tmp =
     concat (map (\<lambda>(name, col).
        map (\<lambda>r. \<lparr>iLEADNAM = LEADNAM r, iHL7LEADNAM = HL7LEADNAM r, iTIME = Some (TIME r),
                   PARAMCD = name, AVAL = col r, DTYPE = []\<rparr>) tmp)
       [(''RR'', RR), (''PR'', PR), (''QRS'', QRS), (''QT'', QT), (''QTRR'', QTRR),
        (''QTCF'', QTCF)])"

text \<open>
  \<^verbatim>\<open>get_aecg_intervals\<close>. On \<^verbatim>\<open>pd.DataFrame()\<close> the loop is skipped and the
  selection of the columns \<^verbatim>\<open>LEADNAM\<close>, \<^verbatim>\<open>HL7LEADNAM\<close>, \<^verbatim>\<open>TIME\<close> raises
  \<^verbatim>\<open>KeyError\<close>.
\<close>

definition get_aecg_intervals ::
  "real ann_ms frame \<Rightarrow> bool \<Rightarrow> py_error + interval frame" where
  "get_aecg_intervals anns_df_in_ms include_all_found_intervals =
     (case anns_df_in_ms of
        NoColumns \<Rightarrow> Inl KeyError
      | Rows anns \<Rightarrow>
          ebind (aecg_tmp anns) (\<lambda>tmp.
            Inr (get_interval_count_and_avg
                   (sort_key (\<lambda>r. (iLEADNAM r, iTIME r))
                      (filter (\<lambda>r. AVAL r \<noteq> None) (melt tmp)))
                   include_all_found_intervals)))"

text \<open>Sample annotation rows and streams.\<close>

definition mk_ann :: "int \<Rightarrow> string \<Rightarrow> string \<Rightarrow> string \<Rightarrow> real \<Rightarrow> real ann_ms" where
  "mk_ann g l h ty t =
     \<lparr>ANNGRPID = g, BEATNUM = None, LEADNAM = l, ECGLIBANNTYPE = ty, ANNTYPE = [], TIME = t,
      HL7LEADNAM = h\<rparr>"

definition single_beat :: "real ann_ms list" where
  "single_beat =
     [mk_ann 0 ''II'' ''MDC_ECG_LEAD_II'' ''PON'' 100,
      mk_ann 0 ''II'' ''MDC_ECG_LEAD_II'' ''QON'' 140,
      mk_ann 0 ''II'' ''MDC_ECG_LEAD_II'' ''QOFF'' 180,
      mk_ann 0 ''II'' ''MDC_ECG_LEAD_II'' ''TOFF'' 380]"

definition beat_after_rr :: "real ann_ms list" where
  "beat_after_rr =
     [mk_ann 0 ''II'' ''MDC_ECG_LEAD_II'' ''RPEAK'' (- 650),
      mk_ann 1 ''II'' ''MDC_ECG_LEAD_II'' ''PON'' 100,
      mk_ann 1 ''II'' ''MDC_ECG_LEAD_II'' ''QON'' 140,
      mk_ann 1 ''II'' ''MDC_ECG_LEAD_II'' ''RPEAK'' 150,
      mk_ann 1 ''II'' ''MDC_ECG_LEAD_II'' ''QOFF'' 180,
      mk_ann 1 ''II'' ''MDC_ECG_LEAD_II'' ''TOFF'' 380]"

definition toff_before_global_qon :: "real ann_ms list" where
  "toff_before_global_qon =
     [mk_ann 0 ''V5'' ''MDC_ECG_LEAD_V5'' ''TOFF'' 100,
      mk_ann 1 ''GLOBAL'' [] ''QON'' 200]"

definition undefined_interval :: interval where
  "undefined_interval =
     \<lparr>iLEADNAM = ''II'', iHL7LEADNAM = ''MDC_ECG_LEAD_II'', iTIME = Some 380,
      PARAMCD = ''QTCF'', AVAL = None, DTYPE = []\<rparr>"

text \<open>
  The property of the scan state that keeps \<open>qtcf\<close> on its first branch, and the
  property of the three QT columns of a row of \<^verbatim>\<open>tmp\<close> after the loop.
\<close>

definition rr_ok :: "scan_state \<Rightarrow> bool" where
  "rr_ok st \<longleftrightarrow> (\<forall>x. last_rr st = Some x \<longrightarrow> 0 < x)"

definition qt_cols_ok :: "tmp_row \<Rightarrow> bool" where
  "qt_cols_ok r \<longleftrightarrow>
     (QTCF r \<noteq> None \<longrightarrow> ECGLIBANNTYPE r = ''TOFF'' \<and> QT r \<noteq> None \<and> QTRR r \<noteq> None)
   \<and> (\<forall>q rr. QT r = Some q \<and> QTRR r = Some rr \<longrightarrow>
         0 < rr \<and> QTCF r = Some (q / (rr / 1000) powr (1 / 3)))"

text \<open>The sorted group keys of the rows that have a value.\<close>

definition group_keys :: "interval list \<Rightarrow> (string \<times> string \<times> string) list" where
  "group_keys df = sort (remdups (map group_key (filter (\<lambda>r. AVAL r \<noteq> None) df)))"

text \<open>
  More samples: the rows that the scan gives for \<open>beat_after_rr\<close>; a T offset on V5
  with two QRS onsets on the global lead that are not in time order in the frame; two QT
  values of one lead together with an undefined QTCF.
\<close>

definition beat_after_rr_tmp :: "tmp_row list" where
  "beat_after_rr_tmp =
     [init_row (mk_ann 0 ''II'' ''MDC_ECG_LEAD_II'' ''RPEAK'' (- 650)),
      init_row (mk_ann 1 ''II'' ''MDC_ECG_LEAD_II'' ''PON'' 100),
      (init_row (mk_ann 1 ''II'' ''MDC_ECG_LEAD_II'' ''QON'' 140))\<lparr>PR := Some 40\<rparr>,
      (init_row (mk_ann 1 ''II'' ''MDC_ECG_LEAD_II'' ''RPEAK'' 150))\<lparr>RR := Some 800\<rparr>,
      (init_row (mk_ann 1 ''II'' ''MDC_ECG_LEAD_II'' ''QOFF'' 180))\<lparr>QRS := Some 40\<rparr>,
      (init_row (mk_ann 1 ''II'' ''MDC_ECG_LEAD_II'' ''TOFF'' 380))
        \<lparr>QT := Some 240, QTRR := Some 800, QTCF := Some (240 / (800 / 1000) powr (1 / 3))\<rparr>]"

definition global_qons_out_of_order :: "real ann_ms list" where
  "global_qons_out_of_order =
     [mk_ann 0 ''V5'' ''MDC_ECG_LEAD_V5'' ''TOFF'' 400,
      mk_ann 1 ''GLOBAL'' [] ''QON'' 300,
      mk_ann 2 ''GLOBAL'' [] ''QON'' 100]"

definition two_qt :: "interval list" where
  "two_qt =
     [\<lparr>iLEADNAM = ''II'', iHL7LEADNAM = ''MDC_ECG_LEAD_II'', iTIME = Some 380,
       PARAMCD = ''QT'', AVAL = Some 240, DTYPE = []\<rparr>,
      \<lparr>iLEADNAM = ''II'', iHL7LEADNAM = ''MDC_ECG_LEAD_II'', iTIME = Some 1180,
       PARAMCD = ''QT'', AVAL = Some 260, DTYPE = []\<rparr>,
      undefined_interval]"

section \<open>Properties\<close>

lemma ebind_simps [simp]:
  "ebind (Inl e) f = Inl e"
  "ebind (Inr x) f = f x"
  by (simp_all add: ebind_def)

subsection \<open>Millivolt conversion\<close>

lemma lead_values_mv_uV_origin:
  assumes "origin_unit l = ''uV''"
    and "scale_unit l = ''mV''"
  shows "lead_values_mv l = Inr (map (\<lambda>d. d * scale l + origin l / 1000) (digits l))"
  using assms by (simp add: lead_values_mv_def)

text \<open>
  C4. The claim is that for each of the four recognised units in the origin position the
  conversion returns \<open>raw_digit * scale_in_mV + origin_in_mV\<close>. With the origin unit
  \<^verbatim>\<open>mV\<close> (origin 0, scale 1 mV, one digit 1) the conversion does not return the
  value 1: the misspelt attribute read raises \<^verbatim>\<open>AttributeError\<close>.
\<close>

theorem lead_values_mv_origin_mV_raises:
  "lead_values_mv \<lparr>leadname = ''MDC_ECG_LEAD_I'', origin = 0, origin_unit = ''mV'',
      scale = 1, scale_unit = ''mV'', digits = [1]\<rparr> = Inl AttributeError"
  by (simp add: lead_values_mv_def oirigin_unit_def)

text \<open>
  C5. The claim is that an unrecognised origin unit makes the conversion fail with the
  unknown-unit error and no other. With the origin unit \<^verbatim>\<open>furlongs\<close> and the scale
  unit \<^verbatim>\<open>mV\<close> the error raised is \<^verbatim>\<open>AttributeError\<close>, from the same misspelt
  attribute read.
\<close>

theorem lead_values_mv_origin_furlongs_raises:
  "lead_values_mv \<lparr>leadname = ''MDC_ECG_LEAD_I'', origin = 0, origin_unit = ''furlongs'',
      scale = 1, scale_unit = ''mV'', digits = [1]\<rparr> = Inl AttributeError"
  by (simp add: lead_values_mv_def oirigin_unit_def)

subsection \<open>Clinical labels\<close>

lemma annsufix_cases:
  "annsufix ann p =
     (if wavecomponent2 ann = ''MDC_ECG_WAVC_PEAK'' then ''PEAK''
      else (case p of Value \<Rightarrow> ''PEAK'' | Low \<Rightarrow> ''ON'' | High \<Rightarrow> ''OFF''))"
  by (cases p) (simp_all add: annsufix_def)

text \<open>
  C8. If one of \<open>codetype\<close>, \<open>wavecomponent\<close>, \<open>wavecomponent2\<close> is the P-wave code, the
  label is \<open>P\<close> followed by the suffix, whatever the other fields are. Otherwise, if one
  of the three is the QRS-wave code, the value slot gives \<open>R\<close> and the low and high
  slots give \<open>Q\<close>, followed by the suffix. The suffix is \<open>PEAK\<close> when
  \<open>wavecomponent2\<close> is the PEAK code, and otherwise \<open>PEAK\<close>, \<open>ON\<close>, \<open>OFF\<close> for the
  value, low and high slot.
\<close>

theorem ecglibanntype_p_and_qrs:
  "((codetype ann = ''MDC_ECG_WAVC_PWAVE'' \<or> wavecomponent ann = ''MDC_ECG_WAVC_PWAVE''
       \<or> wavecomponent2 ann = ''MDC_ECG_WAVC_PWAVE'')
     \<longrightarrow> ecglibanntype ann p = Inr (''P'' @ annsufix ann p))
   \<and> (\<not> (codetype ann = ''MDC_ECG_WAVC_PWAVE'' \<or> wavecomponent ann = ''MDC_ECG_WAVC_PWAVE''
       \<or> wavecomponent2 ann = ''MDC_ECG_WAVC_PWAVE'')
     \<and> (codetype ann = ''MDC_ECG_WAVC_QRSWAVE'' \<or> wavecomponent ann = ''MDC_ECG_WAVC_QRSWAVE''
       \<or> wavecomponent2 ann = ''MDC_ECG_WAVC_QRSWAVE'')
     \<longrightarrow> ecglibanntype ann Value = Inr (''R'' @ annsufix ann Value)
       \<and> ecglibanntype ann Low = Inr (''Q'' @ annsufix ann Low)
       \<and> ecglibanntype ann High = Inr (''Q'' @ annsufix ann High))
   \<and> annsufix ann p =
       (if wavecomponent2 ann = ''MDC_ECG_WAVC_PEAK'' then ''PEAK''
        else (case p of Value \<Rightarrow> ''PEAK'' | Low \<Rightarrow> ''ON'' | High \<Rightarrow> ''OFF''))"
  unfolding ecglibanntype_def using annsufix_cases [of ann p] by simp

theorem ecglibanntype_p_and_qrs_witness:
  "ecglibanntype ann_qrs Value = Inr ''RPEAK''
   \<and> ecglibanntype ann_qrs Low = Inr ''QON''
   \<and> ecglibanntype ann_qrs High = Inr ''QOFF''
   \<and> ecglibanntype (ann_qrs\<lparr>wavecomponent2 := ''MDC_ECG_WAVC_PWAVE''\<rparr>) Low = Inr ''PON''"
  using ecglibanntype_p_and_qrs [of ann_qrs Low]
    ecglibanntype_p_and_qrs [of "ann_qrs\<lparr>wavecomponent2 := ''MDC_ECG_WAVC_PWAVE''\<rparr>" Low]
  by (simp add: ann_qrs_def annsufix_def)

text \<open>
  C9, as stated: the fallback label would start with the final underscore-delimited token
  of the chosen code. For the wave component \<^verbatim>\<open>MDC_ECG_WAVC_U_WAVE\<close> (five tokens, no
  rule of 1 to 11 applies) the label of the value slot is \<open>UPEAK\<close>: the prefix is the
  token at index 3, not the final token \<open>WAVE\<close>.
\<close>

theorem fallback_label_not_last_token:
  "\<not> rule_1_to_11 ann_five_tokens
   \<and> fallback_code ann_five_tokens = ''MDC_ECG_WAVC_U_WAVE''
   \<and> last (split_chr CHR ''_'' (fallback_code ann_five_tokens)) = ''WAVE''
   \<and> ecglibanntype ann_five_tokens Value = Inr ''UPEAK''
   \<and> ecglibanntype ann_five_tokens Value
       \<noteq> Inr (last (split_chr CHR ''_'' (fallback_code ann_five_tokens))
              @ annsufix ann_five_tokens Value)"
  by (simp add: rule_1_to_11_def fallback_code_def ecglibanntype_def annsufix_def
      ann_five_tokens_def index_def)

lemma fallback_reached:
  assumes "\<not> rule_1_to_11 ann"
    and "toks = split_chr CHR ''_'' (fallback_code ann)"
  shows "ecglibanntype ann p = ebind (index toks 3) (\<lambda>t. Inr (t @ annsufix ann p))"
proof -
  from assms(1) have c:
    "\<not> (codetype ann = ''MDC_ECG_WAVC_PWAVE'' \<or> wavecomponent ann = ''MDC_ECG_WAVC_PWAVE''
        \<or> wavecomponent2 ann = ''MDC_ECG_WAVC_PWAVE'')"
    "\<not> (codetype ann = ''MDC_ECG_WAVC_QRSWAVE'' \<or> wavecomponent ann = ''MDC_ECG_WAVC_QRSWAVE''
        \<or> wavecomponent2 ann = ''MDC_ECG_WAVC_QRSWAVE'')"
    "\<not> (codetype ann = ''MDC_ECG_WAVC_RWAVE'' \<or> wavecomponent ann = ''MDC_ECG_WAVC_RWAVE''
        \<or> wavecomponent2 ann = ''MDC_ECG_WAVC_RWAVE'')"
    "\<not> (codetype ann = ''MDC_ECG_WAVC_TWAVE'' \<or> wavecomponent ann = ''MDC_ECG_WAVC_TWAVE''
        \<or> wavecomponent2 ann = ''MDC_ECG_WAVC_TWAVE'')"
    "\<not> (codetype ann = ''MDC_ECG_WAVC_TYPE'' \<and>
        (wavecomponent ann = ''MDC_ECG_WAVC_PRSEG'' \<or> wavecomponent2 ann = ''MDC_ECG_WAVC_PRSEG''))"
    "\<not> (codetype ann = ''MDC_ECG_WAVC_TYPE'' \<and>
        (wavecomponent ann = ''MDC_ECG_WAVC_QRSTWAVE'' \<or> wavecomponent2 ann = ''MDC_ECG_WAVC_QRSTWAVE''))"
    "\<not> (codetype ann = ''MDC_ECG_WAVC_QRSTWAVE'' \<and> wavecomponent ann = ''MDC_ECG_WAVC_QRSTWAVE''
        \<and> wavecomponent2 ann = [])"
    "\<not> (codetype ann = ''MDC_ECG_WAVC_QWAVE'' \<and>
        (wavecomponent ann = ''MDC_ECG_WAVC_QWAVE'' \<or> wavecomponent2 ann = ''MDC_ECG_WAVC_QWAVE''))"
    "\<not> (codetype ann = ''MDC_ECG_WAVC_TYPE'' \<and>
        (wavecomponent ann = ''MDC_ECG_WAVC_QSWAVE'' \<or> wavecomponent2 ann = ''MDC_ECG_WAVC_QSWAVE''))"
    "\<not> (codetype ann = ''MDC_ECG_WAVC_SWAVE'' \<and>
        (wavecomponent ann = ''MDC_ECG_WAVC_PEAK'' \<or> wavecomponent2 ann = ''MDC_ECG_WAVC_PEAK''))"
    "\<not> (codetype ann = ''MDC_ECG_WAVC_STJ'' \<and>
        (wavecomponent ann = ''MDC_ECG_WAVC_PEAK'' \<or> wavecomponent2 ann = ''MDC_ECG_WAVC_PEAK''))"
    unfolding rule_1_to_11_def by blast+
  show ?thesis
    unfolding ecglibanntype_def fallback_code_def assms(2)
    by (simp only: c if_False split: if_split) simp
qed

text \<open>
  C9, amended. When none of the rules 1 to 11 applies, the code that is split is
  \<open>wavecomponent\<close> unless it is \<^verbatim>\<open>MDC_ECG_WAVC_TYPE\<close> or \<^verbatim>\<open>MDC_ECG_WAVC\<close>, else
  \<open>wavecomponent2\<close> under the same test, else \<open>codetype\<close>; the label is the token at
  index 3 of that code followed by the suffix, which is the final token exactly for a
  code of four tokens; a code of fewer than four tokens raises \<^verbatim>\<open>IndexError\<close>.
\<close>

theorem fallback_label_fourth_token:
  assumes "\<not> rule_1_to_11 ann"
    and "toks = split_chr CHR ''_'' (fallback_code ann)"
  shows "(3 < length toks \<longrightarrow> ecglibanntype ann p = Inr (toks ! 3 @ annsufix ann p))
       \<and> (length toks = 4 \<longrightarrow> ecglibanntype ann p = Inr (last toks @ annsufix ann p))
       \<and> (length toks \<le> 3 \<longrightarrow> ecglibanntype ann p = Inl IndexError)"
proof -
  have fb: "ecglibanntype ann p = ebind (index toks 3) (\<lambda>t. Inr (t @ annsufix ann p))"
    using assms by (rule fallback_reached)
  have l4: "length toks = 4 \<Longrightarrow> last toks = toks ! 3"
    by (cases toks rule: rev_cases) (simp_all add: nth_append)
  show ?thesis
    using l4 by (auto simp add: fb index_def)
qed

theorem fallback_label_fourth_token_witness:
  "\<not> rule_1_to_11 ann_five_tokens
   \<and> ecglibanntype ann_five_tokens Low = Inr ''UON''
   \<and> ecglibanntype (ann_five_tokens\<lparr>wavecomponent := ''MDC_ECG_WAVC_UWAVE''\<rparr>) High = Inr ''UWAVEOFF''
   \<and> ecglibanntype (ann_five_tokens\<lparr>wavecomponent := ''MDC_ECG''\<rparr>) High = Inl IndexError"
  using fallback_label_fourth_token [of ann_five_tokens
      "split_chr CHR ''_'' (fallback_code ann_five_tokens)" Low]
    fallback_label_fourth_token [of "ann_five_tokens\<lparr>wavecomponent := ''MDC_ECG_WAVC_UWAVE''\<rparr>"
      "split_chr CHR ''_'' (fallback_code (ann_five_tokens\<lparr>wavecomponent := ''MDC_ECG_WAVC_UWAVE''\<rparr>))" High]
    fallback_label_fourth_token [of "ann_five_tokens\<lparr>wavecomponent := ''MDC_ECG''\<rparr>"
      "split_chr CHR ''_'' (fallback_code (ann_five_tokens\<lparr>wavecomponent := ''MDC_ECG''\<rparr>))" High]
  by (simp add: rule_1_to_11_def fallback_code_def ann_five_tokens_def annsufix_def)

subsection \<open>HL7 timestamps\<close>

lemmas parse_defs = parse_hl7_datetime_def fromisoformat_def parse_digits_def is_digit_def
  digits_val_def digit_val_def parse_hh_mm_ss_ff_def parse_fraction_def datetime_new_def
  days_in_month_def is_leap_def

lemma parse_hl7_datetime_minutes:
  "parse_hl7_datetime ''200211220910'' =
     Inr \<lparr>year = 2002, month = 11, day = 22, hour = 9, minute = 10, second = 0,
          microsecond = 0\<rparr>"
  by (simp add: parse_defs)

lemma parse_hl7_datetime_day:
  "parse_hl7_datetime ''20021122'' =
     Inr \<lparr>year = 2002, month = 11, day = 22, hour = 0, minute = 0, second = 0,
          microsecond = 0\<rparr>"
  by (simp add: parse_defs)

lemma parse_hl7_datetime_short_or_odd:
  "parse_hl7_datetime ''200211'' = Inl ValueError
   \<and> parse_hl7_datetime ''20021122091'' = Inl ValueError"
  by (simp add: parse_defs)

text \<open>
  C7. The claim is that a timestamp is read to the precision that is present, so that
  \<^verbatim>\<open>2002\<close> gives the first of January 2002. The function builds the ISO text
  \<^verbatim>\<open>2002\<close> for it and hands it to \<^verbatim>\<open>fromisoformat\<close>, which accepts no date
  shorter than \<^verbatim>\<open>YYYY-MM-DD\<close>: the call raises \<^verbatim>\<open>ValueError\<close>.
\<close>

theorem parse_hl7_datetime_year_only_raises:
  "parse_hl7_datetime ''2002'' = Inl ValueError"
  by (simp add: parse_defs)

subsection \<open>Projection onto the time axis\<close>

text \<open>
  The frame that \<^verbatim>\<open>anns_to_ms\<close> returns is the frame of the rows in the order of
  appending: sorting after each append is one stable sort of all rows.
\<close>

lemma overflow_finite: "\<bar>v\<bar> \<le> 10 ^ 15 \<Longrightarrow> overflow v = Finite v"
proof -
  assume a: "\<bar>v\<bar> \<le> 10 ^ 15"
  have "(10::real) ^ 15 < 2 ^ 1024 - 2 ^ 970" by simp
  with a show ?thesis unfolding overflow_def by auto
qed

lemmas float_defs = py_float_def strip_def is_space_def split_sign_def is_digit_def
  digits_val_def digit_val_def lower_chr_def overflow_finite

lemma ebind_assoc: "ebind (ebind m f) g = ebind m (\<lambda>x. ebind (f x) g)"
  by (cases m) simp_all

lemma ebind_Inr [simp]: "ebind m Inr = m"
  by (cases m) simp_all

lemma sort_key_append_sorted:
  "sort_key f (sort_key f xs @ ys) = sort_key f (xs @ ys)"
proof (rule properties_for_sort_key)
  show "mset (sort_key f (xs @ ys)) = mset (sort_key f xs @ ys)"
    by simp
  show "filter (\<lambda>x. f k = f x) (sort_key f (xs @ ys)) = filter (\<lambda>x. f k = f x) (sort_key f xs @ ys)"
    for k
    using sort_key_stable [of f "f k" "xs @ ys"] sort_key_stable [of f "f k" xs]
    by (simp add: eq_commute [of "f k"])
  show "sorted (map f (sort_key f (xs @ ys)))"
    by simp
qed

lemma sort_values_append: "sort_values (sort_values xs @ ys) = sort_values (xs @ ys)"
  unfolding sort_values_def by (rule sort_key_append_sorted)

lemma sort_values_idem: "sort_values (sort_values xs) = sort_values xs"
  using sort_values_append [of xs "[]"] by simp

lemma ann_slots_eq:
  "sort_values res = res \<Longrightarrow>
   ann_slots st l ann res ps =
     ebind (slot_rows st l ann ps) (\<lambda>rows. Inr (sort_values (res @ rows)))"
proof (induction ps arbitrary: res)
  case Nil
  then show ?case by simp
next
  case (Cons p ps)
  show ?case
  proof (cases "slot ann p = []")
    case True
    then show ?thesis using Cons by simp
  next
    case False
    have "ann_slots st l ann (sort_values (res @ [row])) ps =
        ebind (slot_rows st l ann ps) (\<lambda>rows. Inr (sort_values (res @ row # rows)))" for row
      using Cons.IH [of "sort_values (res @ [row])"] sort_values_append [of "res @ [row]"]
      by (simp add: sort_values_idem)
    then show ?thesis
      using False by (simp add: ebind_assoc)
  qed
qed

lemma anns_loop_eq:
  "sort_values res = res \<Longrightarrow>
   anns_loop st lst res anns =
     ebind (appended_rows st lst anns) (\<lambda>rows. Inr (sort_values (res @ rows)))"
proof (induction anns arbitrary: st res)
  case Nil
  then show ?case by simp
next
  case (Cons a anns)
  let ?st = "next_start_time st lst a"
  have step: "ebind (Inr (sort_values (res @ rows)) :: py_error + pyfloat option ann_ms list)
        (\<lambda>res'. anns_loop ?st lst res' anns) =
      ebind (appended_rows ?st lst anns) (\<lambda>more. Inr (sort_values (res @ rows @ more)))" for rows
    using Cons.IH [of "sort_values (res @ rows)" ?st] sort_values_append [of "res @ rows"]
    by (simp add: sort_values_idem)
  show ?case
    using Cons.prems step
    by (simp add: ann_slots_eq ann_rows_def ebind_assoc del: ann_slots.simps slot_rows.simps)
qed

lemma anns_to_ms_eq:
  "anns_to_ms st lst anns = ebind (appended_rows st lst anns) (\<lambda>rows. Inr (frame_of rows))"
proof -
  have "sort_values [] = ([] :: pyfloat option ann_ms list)"
    by (simp add: sort_values_def)
  then have "anns_loop st lst [] anns =
      ebind (appended_rows st lst anns) (\<lambda>rows. Inr (sort_values rows))"
    using anns_loop_eq [of "[]" st lst anns] by simp
  moreover have "(if 0 < length (sort_values rows) then Rows (filter notna (sort_values rows))
        else NoColumns) = frame_of rows" for rows
    by (simp add: frame_of_def sort_values_def)
  ultimately show ?thesis
    by (simp add: anns_to_ms_def ebind_assoc)
qed

lemma appended_rows_append:
  "appended_rows st lst (xs @ ys) =
     ebind (appended_rows st lst xs) (\<lambda>r1.
     ebind (appended_rows (start_time_after st lst xs) lst ys) (\<lambda>r2. Inr (r1 @ r2)))"
proof (induction xs arbitrary: st)
  case Nil
  show ?case by (simp add: start_time_after_def)
next
  case (Cons x xs)
  show ?case
    by (simp add: Cons.IH start_time_after_def ebind_def split: sum.splits)
qed

lemma start_time_after_no_entry:
  "\<forall>x \<in> set xs. filter (\<lambda>r. fst r = lead x) lst = [] \<Longrightarrow> start_time_after st lst xs = st"
  by (induction xs arbitrary: st) (simp_all add: start_time_after_def next_start_time_def)

lemma start_time_after_append:
  "start_time_after st lst (xs @ ys) = start_time_after (start_time_after st lst xs) lst ys"
  by (simp add: start_time_after_def)

lemma clear_slot_fields [simp]:
  "anngrpid (clear_slot ann p) = anngrpid ann"
  "beatnum (clear_slot ann p) = beatnum ann"
  "codetype (clear_slot ann p) = codetype ann"
  "wavecomponent (clear_slot ann p) = wavecomponent ann"
  "wavecomponent2 (clear_slot ann p) = wavecomponent2 ann"
  "timecode (clear_slot ann p) = timecode ann"
  "lead (clear_slot ann p) = lead ann"
  "slot (clear_slot ann p) p = []"
  "slot_unit (clear_slot ann p) q = slot_unit ann q"
  by (cases p; cases q; simp)+

lemma clear_slot_other: "q \<noteq> p \<Longrightarrow> slot (clear_slot ann p) q = slot ann q"
  by (cases p; cases q; simp)

lemma ecglibanntype_clear: "ecglibanntype (clear_slot ann p) q = ecglibanntype ann q"
  unfolding ecglibanntype_def annsufix_def clear_slot_fields by (rule refl)

lemma leadnam_of_clear: "leadnam_of (clear_slot ann p) = leadnam_of ann"
  by (simp add: leadnam_of_def)

lemma next_start_time_clear:
  "next_start_time st lst (clear_slot ann p) = next_start_time st lst ann"
  by (simp add: next_start_time_def)

lemma lead_ann_clear:
  assumes "q \<noteq> p"
  shows "lead_ann st l (clear_slot ann p) q = lead_ann st l ann q"
proof -
  have s: "slot (clear_slot ann p) q = slot ann q"
    using assms by (rule clear_slot_other)
  have r: "relative_time (clear_slot ann p) q = relative_time ann q"
    unfolding relative_time_def s by simp
  have a: "absolute_time st (clear_slot ann p) q = absolute_time st ann q"
    unfolding absolute_time_def s by simp
  have t: "ann_time st (clear_slot ann p) q = ann_time st ann q"
    unfolding ann_time_def r a by simp
  show ?thesis
    unfolding lead_ann_def t ecglibanntype_clear by simp
qed

lemma slot_rows_clear:
  assumes "slot ann p \<noteq> []"
    and "lead_ann st l ann p = Inr r0" and "\<not> notna r0"
  shows "(\<exists>e. slot_rows st l ann ps = Inl e \<and> slot_rows st l (clear_slot ann p) ps = Inl e)
       \<or> (\<exists>a b. slot_rows st l ann ps = Inr a \<and> slot_rows st l (clear_slot ann p) ps = Inr b
            \<and> (p \<in> set ps \<longrightarrow> a \<noteq> []) \<and> filter notna a = filter notna b)"
proof (induction ps)
  case Nil
  show ?case by simp
next
  case (Cons q ps)
  show ?case
  proof (cases "q = p")
    case True
    have c: "slot (clear_slot ann p) p = []" by simp
    show ?thesis
      using Cons assms unfolding True slot_rows.simps c
      by (auto simp add: ebind_def split: sum.splits)
  next
    case False
    have o: "slot (clear_slot ann p) q = slot ann q"
      "lead_ann st l (clear_slot ann p) q = lead_ann st l ann q"
      using False by (simp_all only: clear_slot_other lead_ann_clear not_False_eq_True)
    show ?thesis
      using Cons False unfolding slot_rows.simps o
      by (cases "lead_ann st l ann q") (auto simp add: ebind_def split: sum.splits)
  qed
qed

lemma appended_rows_clear:
  assumes "slot ann p \<noteq> []"
    and "ecglibanntype ann p = Inr lab"
    and "\<And>s. ann_time s ann p = Inr t" and "t = None \<or> t = Some NaN"
  shows "(\<exists>e. appended_rows st lst (pre @ ann # rest) = Inl e
            \<and> appended_rows st lst (pre @ clear_slot ann p # rest) = Inl e)
       \<or> (\<exists>a b. appended_rows st lst (pre @ ann # rest) = Inr a
            \<and> appended_rows st lst (pre @ clear_slot ann p # rest) = Inr b
            \<and> a \<noteq> [] \<and> filter notna a = filter notna b)"
proof -
  let ?s = "next_start_time (start_time_after st lst pre) lst ann"
  have rows: "(\<exists>e. ann_rows ?s ann = Inl e \<and> ann_rows ?s (clear_slot ann p) = Inl e)
       \<or> (\<exists>a b. ann_rows ?s ann = Inr a \<and> ann_rows ?s (clear_slot ann p) = Inr b
            \<and> a \<noteq> [] \<and> filter notna a = filter notna b)"
  proof (cases "leadnam_of ann")
    case (Inl e)
    then show ?thesis by (simp add: ann_rows_def leadnam_of_clear)
  next
    case (Inr l)
    let ?r0 = "\<lparr>ANNGRPID = anngrpid ann, BEATNUM = beatnum ann, LEADNAM = l,
          ECGLIBANNTYPE = lab,
          ANNTYPE = (if wavecomponent ann \<noteq> ''MDC_ECG_WAVC_TYPE'' then wavecomponent ann
                     else codetype ann),
          TIME = t, HL7LEADNAM = lead ann\<rparr>"
    have r0: "lead_ann ?s l ann p = Inr ?r0"
      by (simp add: lead_ann_def assms(2,3))
    have n: "\<not> notna ?r0"
      using assms(4) by (auto simp add: notna_def)
    have mem: "p \<in> set [Value, Low, High]"
      by (cases p) simp_all
    have "(\<exists>e. slot_rows ?s l ann [Value, Low, High] = Inl e
            \<and> slot_rows ?s l (clear_slot ann p) [Value, Low, High] = Inl e)
       \<or> (\<exists>a b. slot_rows ?s l ann [Value, Low, High] = Inr a
            \<and> slot_rows ?s l (clear_slot ann p) [Value, Low, High] = Inr b
            \<and> a \<noteq> [] \<and> filter notna a = filter notna b)"
      using slot_rows_clear [OF assms(1) r0 n, of "[Value, Low, High]"] mem by blast
    then show ?thesis
      unfolding ann_rows_def leadnam_of_clear Inr ebind_simps .
  qed
  have l: "appended_rows st lst (pre @ ann # rest) =
      ebind (appended_rows st lst pre) (\<lambda>r1.
      ebind (ebind (ann_rows ?s ann) (\<lambda>rows.
             ebind (appended_rows ?s lst rest) (\<lambda>res. Inr (rows @ res))))
        (\<lambda>r2. Inr (r1 @ r2)))"
    by (simp add: appended_rows_append)
  have r: "appended_rows st lst (pre @ clear_slot ann p # rest) =
      ebind (appended_rows st lst pre) (\<lambda>r1.
      ebind (ebind (ann_rows ?s (clear_slot ann p)) (\<lambda>rows.
             ebind (appended_rows ?s lst rest) (\<lambda>res. Inr (rows @ res))))
        (\<lambda>r2. Inr (r1 @ r2)))"
    by (simp add: appended_rows_append next_start_time_clear)
  show ?thesis
    unfolding l r using rows
    by (cases "appended_rows st lst pre"; cases "appended_rows ?s lst rest") auto
qed

lemma frame_of_dropped:
  assumes "a \<noteq> []" and "filter notna a = filter notna b"
  shows "frame_of a = with_columns (frame_of b)"
proof -
  have "filter notna (sort_values a) = filter notna (sort_values b)"
    using assms(2) by (simp add: sort_values_def filter_sort)
  then show ?thesis
    using assms(1) by (simp add: frame_of_def sort_values_def)
qed

lemma anns_to_ms_dropped:
  assumes "slot ann p \<noteq> []"
    and "ecglibanntype ann p = Inr lab"
    and "\<And>s. ann_time s ann p = Inr t" and "t = None \<or> t = Some NaN"
  shows "anns_to_ms st lst (pre @ ann # rest) =
           map_sum id with_columns (anns_to_ms st lst (pre @ clear_slot ann p # rest))"
  using appended_rows_clear [OF assms, of st lst pre rest]
  by (auto simp add: anns_to_ms_eq frame_of_dropped)

lemma slot_rows_raises:
  "p \<in> set ps \<Longrightarrow> slot ann p \<noteq> [] \<Longrightarrow> lead_ann st l ann p = Inl e \<Longrightarrow>
   \<exists>err. slot_rows st l ann ps = Inl err"
  by (induction ps) (auto simp add: ebind_def split: sum.splits)

lemma anns_to_ms_raises:
  assumes "slot ann p \<noteq> []" and "\<And>s. ann_time s ann p = Inl ex"
  shows "\<exists>err. anns_to_ms st lst (pre @ ann # rest) = Inl err"
proof -
  let ?s = "next_start_time (start_time_after st lst pre) lst ann"
  have "\<exists>e. lead_ann ?s l ann p = Inl e" for l
    by (cases "ecglibanntype ann p") (simp_all add: lead_ann_def assms(2))
  moreover have "p \<in> set [Value, Low, High]" by (cases p) simp_all
  ultimately have "\<exists>err. slot_rows ?s l ann [Value, Low, High] = Inl err" for l
    using slot_rows_raises [OF _ assms(1)] by blast
  then have "\<exists>err. ann_rows ?s ann = Inl err"
    by (cases "leadnam_of ann") (simp_all add: ann_rows_def del: slot_rows.simps)
  then show ?thesis
    by (cases "appended_rows st lst pre")
       (auto simp add: anns_to_ms_eq appended_rows_append)
qed

lemma ann_time_retry_relative:
  assumes "timecode ann = ''TIME_ABSOLUTE''"
    and "parse_hl7_datetime (slot ann p) = Inl e"
  shows "ann_time st ann p = relative_time ann p"
  using assms by (simp add: ann_time_def absolute_time_def)

lemmas project_defs = anns_to_ms_eq ann_rows_def leadnam_of_def next_start_time_def lead_ann_def
  ecglibanntype_def annsufix_def ann_time_def absolute_time_def relative_time_def
  frame_of_def sort_values_def row_key_def beatnum_key_def time_key_def notna_def
  diff_ms_def to_microseconds_def toordinal_def

lemma global_alone:
  "anns_to_ms ''20021122091000'' lst0 [ann_abs] = Inr (Rows [row_global_toff 2000])"
  if "lst0 = [] \<or> lst0 = [(''MDC_ECG_LEAD_II'', ''TIME_ABSOLUTE'', ''20021122091001'')]"
  using that
  by (auto simp add: ann_abs_def row_global_toff_def project_defs parse_defs)

text \<open>
  C6, as stated: a boundary tagged \<^verbatim>\<open>TIME_ABSOLUTE\<close> whose value is neither an HL7
  timestamp nor a number would be dropped without raising. For the value \<^verbatim>\<open>abc\<close>
  with the unit \<^verbatim>\<open>ms\<close> the timestamp parse fails, the retry calls \<^verbatim>\<open>float\<close>
  inside the exception handler, and its \<^verbatim>\<open>ValueError\<close> leaves \<^verbatim>\<open>anns_to_ms\<close>:
  the annotation that follows is not projected.
\<close>

theorem anns_to_ms_non_numeric_fatal:
  "timecode ann_abs_text = ''TIME_ABSOLUTE''
   \<and> parse_hl7_datetime (slot ann_abs_text Value) = Inl ValueError
   \<and> py_float (slot ann_abs_text Value) = Inl ValueError
   \<and> anns_to_ms ''20021122091000'' [] [ann_abs_text, ann_abs] = Inl ValueError"
  by (simp add: ann_abs_text_def project_defs parse_defs float_defs)

text \<open>
  C6, amended. For a boundary slot of an annotation tagged \<^verbatim>\<open>TIME_ABSOLUTE\<close> whose
  value fails the timestamp parse, the time is what the \<^verbatim>\<open>TIME_RELATIVE\<close> branch
  computes from the value and its declared unit. If the unit is none of \<^verbatim>\<open>ms\<close>,
  \<^verbatim>\<open>us\<close>, \<^verbatim>\<open>s\<close> (or the value reads as NaN) and the label of the boundary is
  classified without an error, the boundary is dropped: the frame returned for any list of
  annotations around it is the frame returned with that slot empty, with its columns even
  if no row is left, so the boundary adds no exception. If the unit is one of the three
  and \<^verbatim>\<open>float\<close> rejects the value, the conversion raises and \<^verbatim>\<open>anns_to_ms\<close>
  raises, whatever the other annotations are. If \<^verbatim>\<open>float\<close> accepts the value, the time
  is the value scaled by the unit.
\<close>

theorem absolute_fallback:
  assumes "timecode ann = ''TIME_ABSOLUTE''"
    and "parse_hl7_datetime (slot ann p) = Inl e"
  shows "ann_time st ann p = relative_time ann p
       \<and> ((slot_unit ann p \<notin> {''ms'', ''us'', ''s''} \<or> py_float (slot ann p) = Inr NaN)
            \<and> slot ann p \<noteq> [] \<and> ecglibanntype ann p = Inr lab \<longrightarrow>
            anns_to_ms st lst (pre @ ann # rest) =
              map_sum id with_columns (anns_to_ms st lst (pre @ clear_slot ann p # rest)))
       \<and> (slot_unit ann p \<in> {''ms'', ''us'', ''s''} \<and> py_float (slot ann p) = Inl ex
            \<and> slot ann p \<noteq> [] \<longrightarrow>
            ann_time st ann p = Inl ex
            \<and> (\<exists>err. anns_to_ms st lst (pre @ ann # rest) = Inl err))
       \<and> (slot_unit ann p \<in> {''ms'', ''us'', ''s''} \<and> py_float (slot ann p) = Inr v \<longrightarrow>
            ann_time st ann p =
              Inr (Some (if slot_unit ann p = ''ms'' then v
                         else if slot_unit ann p = ''us'' then fscale v (1 / 1000)
                         else fscale v 1000)))"
proof -
  have t: "ann_time s ann p = relative_time ann p" for s
    using assms by (rule ann_time_retry_relative)
  have drop: "anns_to_ms st lst (pre @ ann # rest) =
      map_sum id with_columns (anns_to_ms st lst (pre @ clear_slot ann p # rest))"
    if u: "slot_unit ann p \<notin> {''ms'', ''us'', ''s''} \<or> py_float (slot ann p) = Inr NaN"
      and ne: "slot ann p \<noteq> []" and lab: "ecglibanntype ann p = Inr lab"
  proof -
    have "\<exists>c. relative_time ann p = Inr c \<and> (c = None \<or> c = Some NaN)"
      using u unfolding relative_time_def by (auto simp add: fscale_def)
    then obtain c where c: "relative_time ann p = Inr c" "c = None \<or> c = Some NaN"
      by blast
    show ?thesis
      using anns_to_ms_dropped [OF ne lab, of c st lst pre rest] c t by simp
  qed
  have fatal: "ann_time st ann p = Inl ex \<and> (\<exists>err. anns_to_ms st lst (pre @ ann # rest) = Inl err)"
    if u: "slot_unit ann p \<in> {''ms'', ''us'', ''s''}" and f: "py_float (slot ann p) = Inl ex"
      and ne: "slot ann p \<noteq> []"
  proof -
    have r: "relative_time ann p = Inl ex"
      using u f by (auto simp add: relative_time_def)
    show ?thesis
      using anns_to_ms_raises [OF ne, of ex st lst pre rest] r t by simp
  qed
  have num: "ann_time st ann p =
        Inr (Some (if slot_unit ann p = ''ms'' then v
                   else if slot_unit ann p = ''us'' then fscale v (1 / 1000)
                   else fscale v 1000))"
    if "slot_unit ann p \<in> {''ms'', ''us'', ''s''}" and "py_float (slot ann p) = Inr v"
    using that t by (auto simp add: relative_time_def)
  show ?thesis
    using t drop fatal num by blast
qed

theorem absolute_fallback_witness:
  "anns_to_ms ''20021122091000'' [] [ann_abs_text\<lparr>val_unit := ''min''\<rparr>, ann_abs] =
     Inr (Rows [row_global_toff 2000])
   \<and> anns_to_ms ''20021122091000'' [] [ann_abs_text\<lparr>val := ''nan''\<rparr>, ann_abs] =
     Inr (Rows [row_global_toff 2000])
   \<and> anns_to_ms ''20021122091000'' [] [ann_abs_text\<lparr>val_unit := ''min''\<rparr>] = Inr (Rows [])
   \<and> ann_time ''20021122091000'' ann_abs_text Value = Inl ValueError
   \<and> (\<exists>err. anns_to_ms ''20021122091000'' [] [ann_abs_text, ann_abs] = Inl err)
   \<and> ann_time ''20021122091000'' (ann_abs_text\<lparr>val := ''160'', val_unit := ''s''\<rparr>) Value =
     Inr (Some (Finite 160000))"
proof -
  let ?st = "''20021122091000''"
  let ?a = "ann_abs_text\<lparr>val_unit := ''min''\<rparr>"
  let ?n = "ann_abs_text\<lparr>val := ''nan''\<rparr>"
  let ?v = "ann_abs_text\<lparr>val := ''160'', val_unit := ''s''\<rparr>"
  have abs: "timecode ?a = ''TIME_ABSOLUTE''" "timecode ?n = ''TIME_ABSOLUTE''"
    "timecode ann_abs_text = ''TIME_ABSOLUTE''" "timecode ?v = ''TIME_ABSOLUTE''"
    by (simp_all add: ann_abs_text_def)
  have bad: "parse_hl7_datetime (slot ?a Value) = Inl ValueError"
    "parse_hl7_datetime (slot ?n Value) = Inl ValueError"
    "parse_hl7_datetime (slot ann_abs_text Value) = Inl ValueError"
    "parse_hl7_datetime (slot ?v Value) = Inl ValueError"
    by (simp_all add: ann_abs_text_def parse_hl7_datetime_def fromisoformat_def)
  have lab: "ecglibanntype ?a Value = Inr ''TPEAK''" "ecglibanntype ?n Value = Inr ''TPEAK''"
    by (simp_all add: ann_abs_text_def ecglibanntype_def annsufix_def)
  have fl: "py_float (slot ?n Value) = Inr NaN" "py_float (slot ann_abs_text Value) = Inl ValueError"
    "py_float (slot ?v Value) = Inr (Finite 160)"
    by (simp_all add: ann_abs_text_def float_defs)
  have cl: "clear_slot ?a Value = ann_abs_text\<lparr>val := [], val_unit := ''min''\<rparr>"
    "clear_slot ?n Value = ann_abs_text\<lparr>val := []\<rparr>"
    by (simp_all add: ann_abs_text_def)
  have skip: "anns_to_ms ?st [] (clear_slot ?a Value # rest) = anns_to_ms ?st [] rest"
    "anns_to_ms ?st [] (clear_slot ?n Value # rest) = anns_to_ms ?st [] rest" for rest
    by (simp_all add: cl anns_to_ms_eq ann_rows_def leadnam_of_def next_start_time_def
        ann_abs_text_def)
  have g: "anns_to_ms ?st [] [ann_abs] = Inr (Rows [row_global_toff 2000])"
    by (rule global_alone) simp
  have e: "anns_to_ms ?st [] [] = Inr NoColumns"
    by (simp add: anns_to_ms_eq frame_of_def)
  have un: "slot_unit ?a Value \<notin> {''ms'', ''us'', ''s''}"
    "slot_unit ann_abs_text Value \<in> {''ms'', ''us'', ''s''}"
    "slot_unit ?v Value \<in> {''ms'', ''us'', ''s''}"
    by (simp_all add: ann_abs_text_def)
  have ne: "slot ?a Value \<noteq> []" "slot ?n Value \<noteq> []" "slot ann_abs_text Value \<noteq> []"
    by (simp_all add: ann_abs_text_def)
  have "anns_to_ms ?st [] ([] @ ?a # [ann_abs]) =
      map_sum id with_columns (anns_to_ms ?st [] ([] @ clear_slot ?a Value # [ann_abs]))"
    using absolute_fallback [OF abs(1) bad(1), of ?st "''TPEAK''" "[]" "[]" "[ann_abs]"]
      lab(1) un(1) ne(1) by blast
  then have 1: "anns_to_ms ?st [] [?a, ann_abs] = Inr (Rows [row_global_toff 2000])"
    unfolding append_Nil skip g by simp
  have "anns_to_ms ?st [] ([] @ ?n # [ann_abs]) =
      map_sum id with_columns (anns_to_ms ?st [] ([] @ clear_slot ?n Value # [ann_abs]))"
    using absolute_fallback [OF abs(2) bad(2), of ?st "''TPEAK''" "[]" "[]" "[ann_abs]"]
      lab(2) fl(1) ne(2) by blast
  then have 2: "anns_to_ms ?st [] [?n, ann_abs] = Inr (Rows [row_global_toff 2000])"
    unfolding append_Nil skip g by simp
  have "anns_to_ms ?st [] ([] @ ?a # []) =
      map_sum id with_columns (anns_to_ms ?st [] ([] @ clear_slot ?a Value # []))"
    using absolute_fallback [OF abs(1) bad(1), of ?st "''TPEAK''" "[]" "[]" "[]"]
      lab(1) un(1) ne(1) by blast
  then have 3: "anns_to_ms ?st [] [?a] = Inr (Rows [])"
    unfolding append_Nil skip e by simp
  have "ann_time ?st ann_abs_text Value = Inl ValueError
      \<and> (\<exists>err. anns_to_ms ?st [] ([] @ ann_abs_text # [ann_abs]) = Inl err)"
    using absolute_fallback [OF abs(3) bad(3), of ?st _ "[]" "[]" "[ann_abs]" ValueError]
      fl(2) un(2) ne(3) by blast
  then have 4: "ann_time ?st ann_abs_text Value = Inl ValueError
      \<and> (\<exists>err. anns_to_ms ?st [] [ann_abs_text, ann_abs] = Inl err)"
    by simp
  have "ann_time ?st ?v Value =
      Inr (Some (if slot_unit ?v Value = ''ms'' then Finite 160
                 else if slot_unit ?v Value = ''us'' then fscale (Finite 160) (1 / 1000)
                 else fscale (Finite 160) 1000))"
    using absolute_fallback [OF abs(4) bad(4), of ?st _ "[]" "[]" "[]" _ "Finite 160"]
      fl(3) un(3) by blast
  then have 5: "ann_time ?st ?v Value = Inr (Some (Finite 160000))"
    by (simp add: ann_abs_text_def fscale_def overflow_finite)
  show ?thesis
    using 1 2 3 4 5 by blast
qed

text \<open>
  C10. The start time against which a \<^verbatim>\<open>TIME_ABSOLUTE\<close> annotation is projected is the
  loop's variable, not the argument: if an annotation \<open>a\<close> has a row in
  \<^verbatim>\<open>leads_start_times\<close> and neither the annotations \<open>mid\<close> after it nor \<open>b\<close> have
  one, then the rows of \<open>b\<close> (for instance a global-lead annotation) are those projected
  against the start time of the lead of \<open>a\<close>, whatever the argument \<open>st\<close> and the
  annotations \<open>pre\<close> before \<open>a\<close> were, and the annotations \<open>rest\<close> after \<open>b\<close> start
  from that time too. The frame returned is the sorted frame of all these rows.
\<close>

theorem start_time_overwritten:
  assumes "filter (\<lambda>r. fst r = lead a) lst = r # rs"
    and "\<forall>x \<in> set (mid @ [b]). filter (\<lambda>r. fst r = lead x) lst = []"
  shows "anns_to_ms st lst (pre @ a # mid @ b # rest) =
           ebind (appended_rows st lst (pre @ a # mid)) (\<lambda>res.
           ebind (ann_rows (snd (snd r)) b) (\<lambda>rows.
           ebind (appended_rows (snd (snd r)) lst rest) (\<lambda>res'.
           Inr (frame_of (res @ rows @ res')))))"
proof -
  have a: "start_time_after st lst (pre @ [a]) = snd (snd r)"
    using assms(1) by (simp add: start_time_after_def next_start_time_def)
  have "start_time_after st lst (pre @ a # mid) = start_time_after (snd (snd r)) lst mid"
    using a start_time_after_append [of st lst "pre @ [a]" mid] by simp
  also have "\<dots> = snd (snd r)"
    using assms(2) by (intro start_time_after_no_entry) simp
  finally have s: "start_time_after st lst (pre @ a # mid) = snd (snd r)" .
  have b: "next_start_time (snd (snd r)) lst b = snd (snd r)"
    using assms(2) by (simp add: next_start_time_def)
  have "appended_rows st lst ((pre @ a # mid) @ b # rest) =
      ebind (appended_rows st lst (pre @ a # mid)) (\<lambda>r1.
      ebind (appended_rows (snd (snd r)) lst (b # rest)) (\<lambda>r2. Inr (r1 @ r2)))"
    unfolding appended_rows_append [of st lst "pre @ a # mid" "b # rest"] s ..
  then have "appended_rows st lst (pre @ a # mid @ b # rest) =
      ebind (appended_rows st lst (pre @ a # mid)) (\<lambda>res.
      ebind (ann_rows (snd (snd r)) b) (\<lambda>rows.
      ebind (appended_rows (snd (snd r)) lst rest) (\<lambda>res'. Inr (res @ rows @ res'))))"
    by (simp add: b ebind_def split: sum.splits)
  then show ?thesis
    unfolding anns_to_ms_eq by (simp add: ebind_assoc)
qed

text \<open>
  With the waveform starting at 09:10:00 and lead II at 09:10:01, a global-lead T offset
  at 09:10:02 is placed at 1000 ms when it follows an annotation of lead II, and at 2000 ms
  when it is projected alone. The frame is sorted: the row of the global lead comes first.
\<close>

theorem start_time_overwritten_witness:
  "anns_to_ms ''20021122091000'' [(''MDC_ECG_LEAD_II'', ''TIME_ABSOLUTE'', ''20021122091001'')]
     [ann_lead_abs, ann_abs] = Inr (Rows [row_global_toff 1000, row_ii_qoff 1000])
   \<and> anns_to_ms ''20021122091000'' [(''MDC_ECG_LEAD_II'', ''TIME_ABSOLUTE'', ''20021122091001'')]
     [ann_abs] = Inr (Rows [row_global_toff 2000])"
  using start_time_overwritten [of ann_lead_abs
      "[(''MDC_ECG_LEAD_II'', ''TIME_ABSOLUTE'', ''20021122091001'')]"
      "(''MDC_ECG_LEAD_II'', ''TIME_ABSOLUTE'', ''20021122091001'')" "[]" "[]" ann_abs
      "''20021122091000''" "[]" "[]"]
    global_alone [of "[(''MDC_ECG_LEAD_II'', ''TIME_ABSOLUTE'', ''20021122091001'')]"]
  by (simp add: ann_abs_def ann_lead_abs_def row_global_toff_def row_ii_qoff_def
      ann_rows_def leadnam_of_def next_start_time_def lead_ann_def
      ecglibanntype_def annsufix_def ann_time_def absolute_time_def
      frame_of_def sort_values_def row_key_def beatnum_key_def time_key_def notna_def
      diff_ms_def to_microseconds_def toordinal_def parse_defs
      STD_LEADS_def STD_LEADS_DISPLAYNAMES_def upper_def upper_chr_def)

subsection \<open>Interval derivation\<close>

lemmas scan_defs = aecg_tmp_def init_row_def init_state_def mk_ann_def scan_step_def
  reset_lead_def on_rpeak_def on_pon_def on_qon_def on_qoff_def on_toff_def find_qt_def
  nan_sub_def index_last_def index_def qtcf_def

text \<open>
  C1. The claim is that a T offset without a QRS onset of its own lead, when every QRS
  onset of the global lead is at or after it, leaves QT undefined and raises nothing.
  \<^verbatim>\<open>get_aecg_intervals\<close> tests that the global lead has QRS onsets, keeps the positive
  differences and reads the last of them without testing that one is left: for a T offset
  at 100 ms on V5 and a global QRS onset at 200 ms it raises \<^verbatim>\<open>IndexError\<close>.
\<close>

theorem no_preceding_global_qon_raises:
  "get_aecg_intervals (Rows toff_before_global_qon) False = Inl IndexError"
  by (simp add: get_aecg_intervals_def toff_before_global_qon_def scan_defs)

text \<open>
  The onset that is used is the last one in the row order of the frame that has a positive
  difference: with the global onsets 300 and 100 in this order and a T offset at 400, QT
  is 300, taken from the onset at 100.
\<close>

lemma global_qon_row_order:
  "ebind (aecg_tmp global_qons_out_of_order) (\<lambda>rows. Inr (map QT rows)) =
     Inr [None, None, Some 300]"
  by (simp add: global_qons_out_of_order_def scan_defs)

text \<open>
  The scan keeps \<open>last_rr\<close> positive or NaN, and fills the QT columns on T offsets only.
\<close>

lemma before_toff:
  assumes "on_qoff (on_qon (on_pon (on_rpeak (reset_lead st r, r)))) = (s1, a1)"
    and "rr_ok st"
  shows "rr_ok s1 \<and> ECGLIBANNTYPE a1 = ECGLIBANNTYPE r \<and> QT a1 = QT r \<and> QTRR a1 = QTRR r
       \<and> QTCF a1 = QTCF r"
  using assms
  by (auto simp add: rr_ok_def reset_lead_def on_rpeak_def on_pon_def on_qon_def on_qoff_def
      nan_sub_def split: if_splits option.splits)

lemma find_qt_keeps:
  assumes "find_qt df (s, a) = Inr (s2, a2)"
  shows "last_rr s2 = last_rr s \<and> ECGLIBANNTYPE a2 = ECGLIBANNTYPE a"
  using assms
  by (auto simp add: find_qt_def Let_def ebind_def split: option.splits if_splits sum.splits)

lemma scan_step_ok:
  assumes "scan_step df st r = Inr (st', r')"
    and "rr_ok st"
    and "QT r = None" "QTRR r = None" "QTCF r = None"
  shows "rr_ok st' \<and> qt_cols_ok r'"
proof -
  obtain s1 a1 where p: "on_qoff (on_qon (on_pon (on_rpeak (reset_lead st r, r)))) = (s1, a1)"
    by (cases "on_qoff (on_qon (on_pon (on_rpeak (reset_lead st r, r))))") simp
  from before_toff [OF p assms(2)] assms(3-5)
  have b: "rr_ok s1" "ECGLIBANNTYPE a1 = ECGLIBANNTYPE r" "QT a1 = None" "QTRR a1 = None"
    "QTCF a1 = None" by simp_all
  have t: "on_toff df (s1, a1) = Inr (st', r')"
    using assms(1) p by (simp add: scan_step_def)
  show ?thesis
  proof (cases "ECGLIBANNTYPE a1 = ''TOFF''")
    case False
    with t have "st' = s1" "r' = a1" by (simp_all add: on_toff_def)
    with b show ?thesis by (simp add: qt_cols_ok_def)
  next
    case True
    with t obtain s2 a2 where
      f: "find_qt df (s1\<lparr>last_toff := Some (TIME a1)\<rparr>, a1) = Inr (s2, a2)"
      and st': "st' = s2\<lparr>last_pon := None, last_qon := None, last_qoff := None, last_toff := None\<rparr>"
      and r': "r' = a2\<lparr>QT := last_qt s2, QTRR := last_rr s2, QTCF := qtcf (last_qt s2) (last_rr s2)\<rparr>"
      by (auto simp add: on_toff_def ebind_def split: sum.splits)
    from find_qt_keeps [OF f] have k: "last_rr s2 = last_rr s1" "ECGLIBANNTYPE a2 = ''TOFF''"
      using True by simp_all
    show ?thesis
      using b(1) k by (auto simp add: st' r' rr_ok_def qt_cols_ok_def qtcf_def split: option.splits)
  qed
qed

lemma scan_ok:
  assumes "scan df st rs = Inr rows"
    and "rr_ok st"
    and "\<forall>r \<in> set rs. QT r = None \<and> QTRR r = None \<and> QTCF r = None"
  shows "\<forall>r \<in> set rows. qt_cols_ok r"
  using assms
proof (induction rs arbitrary: st rows)
  case Nil
  then show ?case by simp
next
  case (Cons r rs)
  from Cons.prems(1) obtain st' r' res where
    s: "scan_step df st r = Inr (st', r')" and rest: "scan df st' rs = Inr res"
    and rows: "rows = r' # res"
    by (auto simp add: ebind_def split: sum.splits)
  from scan_step_ok [OF s Cons.prems(2)] Cons.prems(3)
  have "rr_ok st'" "qt_cols_ok r'" by simp_all
  moreover from Cons.IH [OF rest \<open>rr_ok st'\<close>] Cons.prems(3)
  have "\<forall>r \<in> set res. qt_cols_ok r" by simp
  ultimately show ?case by (simp add: rows)
qed

lemma aecg_tmp_ok:
  assumes "aecg_tmp df = Inr rows" and "r \<in> set rows"
  shows "qt_cols_ok r"
proof -
  have "rr_ok init_state" by (simp add: rr_ok_def init_state_def)
  moreover have "\<forall>r \<in> set (sort_key (\<lambda>r. (LEADNAM r, HL7LEADNAM r, TIME r)) (map init_row df)).
      QT r = None \<and> QTRR r = None \<and> QTCF r = None"
    by (auto simp add: init_row_def)
  ultimately show ?thesis
    using scan_ok assms unfolding aecg_tmp_def by blast
qed

lemma fridericia_bounds: "258 < 240 / ((800::real) / 1000) powr (1 / 3) \<and> 240 / ((800::real) / 1000) powr (1 / 3) < 259"
proof -
  let ?c = "((800::real) / 1000) powr (1 / 3)"
  have c3: "?c ^ 3 = 4 / 5"
  proof -
    have "?c ^ 3 = ?c powr 3" by (simp add: powr_numeral [symmetric] del: powr_numeral)
    also have "\<dots> = (4 / 5) powr 1" by (simp add: powr_powr)
    finally show ?thesis by simp
  qed
  have cpos: "0 < ?c" by simp
  have lo: "240 / 259 < ?c"
  proof (rule ccontr)
    assume "\<not> 240 / 259 < ?c"
    then have "?c \<le> 240 / 259" by simp
    then have "?c ^ 3 \<le> (240 / 259) ^ 3" using cpos by (intro power_mono) simp_all
    then show False unfolding c3 by (simp add: power3_eq_cube)
  qed
  have hi: "?c < 240 / 258"
  proof (rule ccontr)
    assume "\<not> ?c < 240 / 258"
    then have "240 / 258 \<le> ?c" by simp
    then have "(240 / 258) ^ 3 \<le> ?c ^ 3" by (intro power_mono) simp_all
    then show False unfolding c3 by (simp add: power3_eq_cube)
  qed
  have "258 < 240 / ?c" using hi cpos by (simp add: field_simps)
  moreover have "240 / ?c < 259" using lo cpos by (simp add: field_simps)
  ultimately show ?thesis by blast
qed

lemma beat_after_rr_scan: "aecg_tmp beat_after_rr = Inr beat_after_rr_tmp"
  by (simp add: beat_after_rr_def beat_after_rr_tmp_def scan_defs)

text \<open>
  C2, as stated: with QT = 240 and a preceding RR of 800 ms the QTCF would be about 268.0.
  The scan of such a beat (R peaks at -650 and 150, boundaries at 100, 140, 180, 380) gives
  PR = 40, QRS = 40, QT = 240, QTRR = 800 and QTCF = 240 / 0.8^(1/3), which is below 259.
\<close>

theorem qtcf_not_268:
  "aecg_tmp beat_after_rr = Inr beat_after_rr_tmp
   \<and> map (\<lambda>r. (ECGLIBANNTYPE r, RR r, PR r, QRS r, QT r, QTRR r)) beat_after_rr_tmp =
       [(''RPEAK'', None, None, None, None, None), (''PON'', None, None, None, None, None),
        (''QON'', None, Some 40, None, None, None), (''RPEAK'', Some 800, None, None, None, None),
        (''QOFF'', None, None, Some 40, None, None),
        (''TOFF'', None, None, None, Some 240, Some 800)]
   \<and> QTCF (last beat_after_rr_tmp) = Some (240 / (800 / 1000) powr (1 / 3))
   \<and> 240 / ((800::real) / 1000) powr (1 / 3) < 259"
  using fridericia_bounds
  by (simp add: beat_after_rr_scan) (simp add: beat_after_rr_tmp_def init_row_def mk_ann_def)

text \<open>
  C2, amended. For one beat with the boundaries PON 100, QON 140, QOFF 180, TOFF 380 on one
  lead the scan gives PR = 40, QRS = 40 and QT = 240. In every row of every scan, QTCF is
  defined only on a T offset with QT and QTRR defined, and whenever QT and QTRR are defined
  QTCF is QT / (QTRR/1000)^(1/3). For QT = 240 and RR = 800 that value lies between 258 and
  259 (about 258.5).
\<close>

theorem derived_intervals_and_qtcf:
  "ebind (aecg_tmp single_beat) (\<lambda>rows. Inr (map (\<lambda>r. (ECGLIBANNTYPE r, PR r, QRS r, QT r)) rows)) =
      Inr [(''PON'', None, None, None), (''QON'', Some 40, None, None),
           (''QOFF'', None, Some 40, None), (''TOFF'', None, None, Some 240)]
   \<and> (aecg_tmp df = Inr rows \<and> r \<in> set rows \<longrightarrow>
        (QTCF r \<noteq> None \<longrightarrow> ECGLIBANNTYPE r = ''TOFF'' \<and> QT r \<noteq> None \<and> QTRR r \<noteq> None)
      \<and> (\<forall>q rr. QT r = Some q \<and> QTRR r = Some rr \<longrightarrow>
            QTCF r = Some (q / (rr / 1000) powr (1 / 3))))
   \<and> qtcf (Some 240) (Some 800) = Some (240 / (800 / 1000) powr (1 / 3))
   \<and> 258 < 240 / ((800::real) / 1000) powr (1 / 3)
   \<and> 240 / ((800::real) / 1000) powr (1 / 3) < 259"
proof -
  have ex: "ebind (aecg_tmp single_beat)
        (\<lambda>rows. Inr (map (\<lambda>r. (ECGLIBANNTYPE r, PR r, QRS r, QT r)) rows)) =
      Inr [(''PON'', None, None, None), (''QON'', Some 40, None, None),
           (''QOFF'', None, Some 40, None), (''TOFF'', None, None, Some 240)]"
    by (simp add: single_beat_def scan_defs)
  have gen: "aecg_tmp df = Inr rows \<and> r \<in> set rows \<longrightarrow>
        (QTCF r \<noteq> None \<longrightarrow> ECGLIBANNTYPE r = ''TOFF'' \<and> QT r \<noteq> None \<and> QTRR r \<noteq> None)
      \<and> (\<forall>q rr. QT r = Some q \<and> QTRR r = Some rr \<longrightarrow>
            QTCF r = Some (q / (rr / 1000) powr (1 / 3)))"
    using aecg_tmp_ok [of df rows r] unfolding qt_cols_ok_def by blast
  have q: "qtcf (Some 240) (Some 800) = Some (240 / (800 / 1000) powr (1 / 3))"
    by (simp add: qtcf_def)
  show ?thesis
    using ex gen q fridericia_bounds by blast
qed

theorem derived_intervals_and_qtcf_witness:
  "aecg_tmp beat_after_rr = Inr beat_after_rr_tmp
   \<and> last beat_after_rr_tmp \<in> set beat_after_rr_tmp
   \<and> QT (last beat_after_rr_tmp) = Some 240 \<and> QTRR (last beat_after_rr_tmp) = Some 800
   \<and> ECGLIBANNTYPE (last beat_after_rr_tmp) = ''TOFF''
   \<and> QTCF (last beat_after_rr_tmp) = Some (240 / (800 / 1000) powr (1 / 3))"
proof -
  have m: "last beat_after_rr_tmp \<in> set beat_after_rr_tmp"
    by (simp add: beat_after_rr_tmp_def)
  have v: "QT (last beat_after_rr_tmp) = Some 240 \<and> QTRR (last beat_after_rr_tmp) = Some 800"
    by (simp add: beat_after_rr_tmp_def)
  have n: "QTCF (last beat_after_rr_tmp) \<noteq> None"
    by (simp add: beat_after_rr_tmp_def)
  show ?thesis
    using derived_intervals_and_qtcf [of beat_after_rr beat_after_rr_tmp "last beat_after_rr_tmp"]
      beat_after_rr_scan m v n by blast
qed

subsection \<open>Aggregation\<close>

lemma summary_key [simp]: "group_key (summary_row k v d) = k"
  by (simp add: group_key_def summary_row_def)

lemma summary_fields [simp]: "DTYPE (summary_row k v d) = d" "AVAL (summary_row k v d) = Some v"
  by (simp_all add: summary_row_def)

lemma length_filter_distinct:
  "distinct xs \<Longrightarrow> length (filter (\<lambda>x. x = k) xs) = (if k \<in> set xs then 1 else 0)"
  by (induction xs) auto

lemma group_keys_set: "k \<in> set (group_keys df) \<longleftrightarrow> (\<exists>x \<in> set df. AVAL x \<noteq> None \<and> group_key x = k)"
  by (auto simp add: group_keys_def)

lemma group_keys_distinct: "distinct (group_keys df)"
  by (simp add: group_keys_def)

lemma summary_rows_eq:
  "rows_of (get_interval_count_and_avg df False) =
     map (\<lambda>k. summary_row k (real (length (group_of df k))) ''COUNT'') (group_keys df) @
     map (\<lambda>k. summary_row k (sum_list (group_of df k) / real (length (group_of df k))) ''AVERAGE'')
       (group_keys df)"
  by (cases df) (simp_all add: get_interval_count_and_avg_def group_keys_def Let_def)

lemma count_and_avg_eq:
  "df \<noteq> [] \<Longrightarrow>
   get_interval_count_and_avg df incl =
     Rows ((if incl then df else []) @ rows_of (get_interval_count_and_avg df False))"
  by (simp add: get_interval_count_and_avg_def Let_def)

lemma group_nonempty: "k \<in> set (group_keys df) \<Longrightarrow> group_of df k \<noteq> []"
  by (auto simp add: group_keys_set group_of_def filter_empty_conv)

lemma count_rows:
  "length (filter (\<lambda>r. group_key r = k \<and> DTYPE r = d)
             (rows_of (get_interval_count_and_avg df False))) =
     (if (d = ''COUNT'' \<or> d = ''AVERAGE'') \<and> (\<exists>x \<in> set df. AVAL x \<noteq> None \<and> group_key x = k)
      then 1 else 0)"
proof -
  have d: "length (filter (\<lambda>x. x = k) (group_keys df)) =
      (if (\<exists>x \<in> set df. AVAL x \<noteq> None \<and> group_key x = k) then 1 else 0)"
    using length_filter_distinct [OF group_keys_distinct, of k df] group_keys_set [of k df] by simp
  show ?thesis
    unfolding summary_rows_eq
    by (cases "d = ''COUNT''"; cases "d = ''AVERAGE''") (simp_all add: filter_map comp_def d)
qed

lemma summary_values:
  assumes "r \<in> set (rows_of (get_interval_count_and_avg df False))"
  shows "0 < length (group_of df (group_key r))
       \<and> (DTYPE r = ''COUNT'' \<and> AVAL r = Some (real (length (group_of df (group_key r))))
          \<or> DTYPE r = ''AVERAGE'' \<and>
            AVAL r = Some (sum_list (group_of df (group_key r)) / real (length (group_of df (group_key r)))))"
  using assms unfolding summary_rows_eq by (auto dest: group_nonempty)

lemma get_aecg_intervals_no_rows: "get_aecg_intervals (Rows []) incl = Inr NoColumns"
  by (simp add: get_aecg_intervals_def aecg_tmp_def melt_def get_interval_count_and_avg_def)

text \<open>
  On the frame without columns, which \<^verbatim>\<open>anns_to_ms\<close> returns when no row was appended,
  the selection of the columns raises. (The caller in \<^verbatim>\<open>get_aecg_index_data\<close> calls
  \<^verbatim>\<open>get_aecg_intervals\<close> only on a frame that has rows.)
\<close>

lemma get_aecg_intervals_no_columns: "get_aecg_intervals NoColumns incl = Inl KeyError"
  by (simp add: get_aecg_intervals_def)

text \<open>
  C3, as stated: a group whose values are all undefined would get a COUNT row with 0 and an
  AVERAGE row, and an empty annotation list would give COUNT = 0 for every parameter and no
  exception. A single row with an undefined value gives no summary row at all; an
  annotation frame without rows gives \<^verbatim>\<open>pd.DataFrame()\<close>, without any COUNT row; and
  the frame without columns makes \<^verbatim>\<open>get_aecg_intervals\<close> raise \<^verbatim>\<open>KeyError\<close>.
\<close>

theorem all_undefined_group_omitted:
  "get_interval_count_and_avg [undefined_interval] False = Rows []
   \<and> get_aecg_intervals (Rows []) False = Inr NoColumns
   \<and> get_aecg_intervals NoColumns False = Inl KeyError"
  by (simp add: get_aecg_intervals_def aecg_tmp_def melt_def get_interval_count_and_avg_def
      undefined_interval_def)

text \<open>
  C3, amended. For an interval table with rows the aggregator returns the summary rows,
  preceded by the rows of the table when \<open>incl\<close> is set. Each group (lead, HL7 lead,
  parameter) with at least one defined value gets exactly one COUNT row and one AVERAGE
  row; a group without a defined value gets neither; every summary row belongs to a group
  with a defined value and carries the number of defined values (COUNT, at least 1) or
  their mean (AVERAGE). For an interval table without rows the aggregator returns
  \<^verbatim>\<open>pd.DataFrame()\<close>, and so does \<^verbatim>\<open>get_aecg_intervals\<close>, without raising, for an
  annotation frame that has its columns and no rows.
\<close>

theorem count_and_avg_groups:
  "get_aecg_intervals (Rows []) incl = Inr NoColumns
   \<and> get_interval_count_and_avg [] incl = NoColumns
   \<and> (df \<noteq> [] \<longrightarrow>
        get_interval_count_and_avg df incl =
          Rows ((if incl then df else []) @ rows_of (get_interval_count_and_avg df False)))
   \<and> length (filter (\<lambda>r. group_key r = k \<and> DTYPE r = ''COUNT'')
               (rows_of (get_interval_count_and_avg df False))) =
       (if \<exists>x \<in> set df. AVAL x \<noteq> None \<and> group_key x = k then 1 else 0)
   \<and> length (filter (\<lambda>r. group_key r = k \<and> DTYPE r = ''AVERAGE'')
               (rows_of (get_interval_count_and_avg df False))) =
       (if \<exists>x \<in> set df. AVAL x \<noteq> None \<and> group_key x = k then 1 else 0)
   \<and> (\<forall>r \<in> set (rows_of (get_interval_count_and_avg df False)).
         0 < length (group_of df (group_key r))
       \<and> (DTYPE r = ''COUNT'' \<and> AVAL r = Some (real (length (group_of df (group_key r))))
          \<or> DTYPE r = ''AVERAGE'' \<and>
            AVAL r = Some (sum_list (group_of df (group_key r)) /
                           real (length (group_of df (group_key r))))))"
proof -
  have e: "get_interval_count_and_avg [] incl = NoColumns"
    by (simp add: get_interval_count_and_avg_def)
  show ?thesis
    using e get_aecg_intervals_no_rows [of incl] count_and_avg_eq [of df incl]
      count_rows [of k "''COUNT''" df] count_rows [of k "''AVERAGE''" df]
      summary_values [of _ df] by simp
qed

theorem count_and_avg_groups_witness:
  "get_interval_count_and_avg two_qt False =
     Rows [summary_row (''II'', ''MDC_ECG_LEAD_II'', ''QT'') 2 ''COUNT'',
           summary_row (''II'', ''MDC_ECG_LEAD_II'', ''QT'') 250 ''AVERAGE'']
   \<and> get_interval_count_and_avg two_qt True =
     Rows (two_qt @
          [summary_row (''II'', ''MDC_ECG_LEAD_II'', ''QT'') 2 ''COUNT'',
           summary_row (''II'', ''MDC_ECG_LEAD_II'', ''QT'') 250 ''AVERAGE''])
   \<and> length (filter (\<lambda>r. group_key r = (''II'', ''MDC_ECG_LEAD_II'', ''QT'') \<and> DTYPE r = ''COUNT'')
               (rows_of (get_interval_count_and_avg two_qt False))) = 1
   \<and> length (filter (\<lambda>r. group_key r = (''II'', ''MDC_ECG_LEAD_II'', ''QTCF'') \<and> DTYPE r = ''COUNT'')
               (rows_of (get_interval_count_and_avg two_qt False))) = 0"
proof -
  have ne: "two_qt \<noteq> []"
    by (simp add: two_qt_def)
  have s: "rows_of (get_interval_count_and_avg two_qt False) =
      [summary_row (''II'', ''MDC_ECG_LEAD_II'', ''QT'') 2 ''COUNT'',
       summary_row (''II'', ''MDC_ECG_LEAD_II'', ''QT'') 250 ''AVERAGE'']"
    by (simp add: two_qt_def undefined_interval_def get_interval_count_and_avg_def group_key_def
        group_of_def)
  have q: "\<exists>x \<in> set two_qt. AVAL x \<noteq> None \<and> group_key x = (''II'', ''MDC_ECG_LEAD_II'', ''QT'')"
    by (simp add: two_qt_def undefined_interval_def group_key_def)
  have c: "\<not> (\<exists>x \<in> set two_qt. AVAL x \<noteq> None \<and> group_key x = (''II'', ''MDC_ECG_LEAD_II'', ''QTCF''))"
    by (simp add: two_qt_def undefined_interval_def group_key_def)
  show ?thesis
    using count_and_avg_groups [of False two_qt "(''II'', ''MDC_ECG_LEAD_II'', ''QT'')"]
      count_and_avg_groups [of True two_qt "(''II'', ''MDC_ECG_LEAD_II'', ''QTCF'')"]
      ne s q c by simp
qed

end
